theory Spec2Isabelle
  imports Main
begin

section \<open>Data model\<close>

text \<open>
  The scheduler keeps its state in two SQLite tables, \<^verbatim>\<open>wiki_generation_tasks\<close> and
  \<^verbatim>\<open>wiki_projects\<close> (\<^verbatim>\<open>api/gitlab_db.py\<close>). A row is a record, a table is the list of
  its rows in insertion order, and an SQL \<^verbatim>\<open>UPDATE ... WHERE\<close> is a \<open>map\<close> over that list.
  \<^verbatim>\<open>CURRENT_TIMESTAMP\<close> is an argument \<open>now\<close> of every operation. Python strings are
  modelled as byte strings (UTF-8), a nullable column as an \<open>option\<close>.
\<close>

type_synonym timestamp = nat

text \<open>A page dictionary of the wiki structure (\<^verbatim>\<open>parse_wiki_structure_xml\<close>).\<close>

record page =
  page_id :: string
  page_title :: string
  page_description :: string
  page_importance :: string
  page_filePaths :: "string list"
  page_content :: "string option"

record wiki_structure =
  ws_title :: string
  ws_description :: string
  ws_pages :: "page list"

text \<open>The \<^verbatim>\<open>result\<close> payload of a completed task; \<^verbatim>\<open>json.dumps\<close> followed by
  \<^verbatim>\<open>json.loads\<close> is the identity on it.\<close>

record task_result =
  wiki_structure :: wiki_structure
  documents_count :: nat
  repo_path :: string

text \<open>The parameters of \<^verbatim>\<open>TaskQueueManager.create_task\<close>, which are also the immutable
  columns of a task row.\<close>

record task_request =
  repo_url :: string
  repo_type :: string
  owner :: string
  repo_name :: string
  provider :: string
  model :: string
  language :: string
  is_comprehensive :: bool
  excluded_dirs :: "string option"
  excluded_files :: "string option"
  included_dirs :: "string option"
  included_files :: "string option"
  access_token :: "string option"
  force_refresh :: bool

record task = task_request +
  task_id :: string
  project_key :: "string option"
  status :: string
  progress :: int
  message :: "string option"
  result :: "task_result option"
  error_message :: "string option"
  created_at :: timestamp
  updated_at :: timestamp
  started_at :: "timestamp option"
  completed_at :: "timestamp option"

text \<open>A row of \<^verbatim>\<open>wiki_projects\<close>. The columns \<^verbatim>\<open>provider\<close>, \<^verbatim>\<open>model\<close> and
  \<^verbatim>\<open>language\<close> of that table keep their defaults and are never read or written by the
  scheduler; they are left out.\<close>

record project =
  p_project_key :: string
  p_repo_url :: string
  p_repo_type :: string
  p_owner :: string
  p_repo_name :: string
  p_status :: string
  p_current_task_id :: "string option"
  p_last_generated_at :: "timestamp option"
  p_last_failed_at :: "timestamp option"
  p_last_success_date :: "string option"
  p_generation_count :: int
  p_wiki_structure :: "wiki_structure option"
  p_documents_count :: "nat option"
  p_pages_count :: "nat option"
  p_created_at :: timestamp
  p_updated_at :: timestamp
  p_progress :: int
  p_message :: "string option"

record store =
  tasks :: "task list"
  projects :: "project list"

text \<open>Python exceptions: \<^verbatim>\<open>TaskTimeoutError\<close> has a handler of its own in
  \<^verbatim>\<open>_process_task\<close>; everything else is an \<^verbatim>\<open>Exception\<close> carrying \<^verbatim>\<open>str(e)\<close>.\<close>

datatype exn = TaskTimeoutError string | OtherException string

text \<open>The \<^verbatim>\<open>CHECK\<close> constraints of the two tables.\<close>

definition task_status_ok :: "string \<Rightarrow> bool" where
  "task_status_ok st = (st = ''queued'' \<or> st = ''processing'' \<or> st = ''completed'' \<or> st = ''failed'')"

definition project_status_ok :: "string \<Rightarrow> bool" where
  "project_status_ok st =
     (st = ''not_generated'' \<or> st = ''generating'' \<or> st = ''generated'' \<or> st = ''failed'')"

definition repo_type_ok :: "string \<Rightarrow> bool" where
  "repo_type_ok ty = (ty = ''github'' \<or> ty = ''gitlab'' \<or> ty = ''bitbucket'' \<or> ty = ''gerrit'')"

definition find_task :: "string \<Rightarrow> store \<Rightarrow> task option" where
  "find_task tid s = find (\<lambda>t. task_id t = tid) (tasks s)"

definition find_project :: "string \<Rightarrow> store \<Rightarrow> project option" where
  "find_project pk s = find (\<lambda>p. p_project_key p = pk) (projects s)"

text \<open>Decimal rendering of a number inside an f-string.\<close>

fun show_nat :: "nat \<Rightarrow> string" where
  "show_nat n =
     (if n < 10 then [''0123456789'' ! n]
      else show_nat (n div 10) @ [''0123456789'' ! (n mod 10)])"

declare show_nat.simps [simp del]

section \<open>Task store\<close>

text \<open>
  Every method of \<^verbatim>\<open>GitLabProjectDB\<close> runs its statements inside
  \<^verbatim>\<open>try: with sqlite3.connect(...) ... except Exception\<close>. The argument \<open>ok\<close> says
  whether the connection and its statements work; when they do not, nothing is committed
  and the method returns its error value. A violated \<^verbatim>\<open>UNIQUE\<close> or \<^verbatim>\<open>CHECK\<close>
  constraint raises inside the same \<^verbatim>\<open>try\<close>.
\<close>

definition new_task :: "timestamp \<Rightarrow> string \<Rightarrow> task_request \<Rightarrow> string option \<Rightarrow> task" where
  "new_task now tid req pkey =
     task_request.extend req
       (task.fields tid pkey ''queued'' 0 (Some ''Task created and queued'') None None
          now now None None)"

definition create_wiki_generation_task ::
  "bool \<Rightarrow> timestamp \<Rightarrow> string \<Rightarrow> task_request \<Rightarrow> string option \<Rightarrow> store \<Rightarrow> bool \<times> store" where
  "create_wiki_generation_task ok now tid req pkey s =
     (if ok \<and> find_task tid s = None
      then (True, s\<lparr>tasks := tasks s @ [new_task now tid req pkey]\<rparr>)
      else (False, s))"

definition get_task :: "bool \<Rightarrow> string \<Rightarrow> store \<Rightarrow> task option" where
  "get_task ok tid s = (if ok then find_task tid s else None)"

text \<open>The \<^verbatim>\<open>SET\<close> list that \<^verbatim>\<open>update_task_status\<close> assembles, applied to one row.\<close>

definition set_task_fields ::
  "timestamp \<Rightarrow> string \<Rightarrow> int option \<Rightarrow> string option \<Rightarrow> task_result option \<Rightarrow>
   string option \<Rightarrow> task \<Rightarrow> task" where
  "set_task_fields now st prog msg res err t =
     (let t1 = t\<lparr>status := st, updated_at := now\<rparr>;
          t2 = (case prog of None \<Rightarrow> t1 | Some p \<Rightarrow> t1\<lparr>progress := p\<rparr>);
          t3 = (case msg of None \<Rightarrow> t2 | Some m \<Rightarrow> t2\<lparr>message := Some m\<rparr>);
          t4 = (case res of None \<Rightarrow> t3 | Some r \<Rightarrow> t3\<lparr>result := Some r\<rparr>);
          t5 = (case err of None \<Rightarrow> t4 | Some e \<Rightarrow> t4\<lparr>error_message := Some e\<rparr>)
      in if st = ''processing'' \<and> prog = Some 0 then t5\<lparr>started_at := Some now\<rparr>
         else if st = ''completed'' \<or> st = ''failed'' then t5\<lparr>completed_at := Some now\<rparr>
         else t5)"

definition update_task_status ::
  "bool \<Rightarrow> timestamp \<Rightarrow> string \<Rightarrow> string \<Rightarrow> int option \<Rightarrow> string option \<Rightarrow>
   task_result option \<Rightarrow> string option \<Rightarrow> store \<Rightarrow> bool \<times> store" where
  "update_task_status ok now tid st prog msg res err s =
     (if \<not> ok then (False, s)
      else if find_task tid s \<noteq> None \<and> \<not> task_status_ok st then (False, s)
      else (True,
            s\<lparr>tasks := map (\<lambda>t. if task_id t = tid
                                 then set_task_fields now st prog msg res err t else t)
                            (tasks s)\<rparr>))"

text \<open>The fixed texts of the restart sweep, as UTF-8 bytes.\<close>

definition interrupted_error_message :: string where
  "interrupted_error_message =
     [CHR 0xE6, CHR 0x9C, CHR 0x8D, CHR 0xE5, CHR 0x8A, CHR 0xA1, CHR 0xE5, CHR 0x99, CHR 0xA8,
      CHR 0xE9, CHR 0x87, CHR 0x8D, CHR 0xE5, CHR 0x90, CHR 0xAF, CHR 0xE5, CHR 0xAF, CHR 0xBC,
      CHR 0xE8, CHR 0x87, CHR 0xB4, CHR 0xE4, CHR 0xBB, CHR 0xBB, CHR 0xE5, CHR 0x8A, CHR 0xA1,
      CHR 0xE4, CHR 0xB8, CHR 0xAD, CHR 0xE6, CHR 0x96, CHR 0xAD]"

definition interrupted_message :: string where
  "interrupted_message =
     [CHR 0xE4, CHR 0xBB, CHR 0xBB, CHR 0xE5, CHR 0x8A, CHR 0xA1, CHR 0xE5, CHR 0xB7, CHR 0xB2,
      CHR 0xE8, CHR 0xA2, CHR 0xAB, CHR 0xE6, CHR 0xA0, CHR 0x87, CHR 0xE8, CHR 0xAE, CHR 0xB0,
      CHR 0xE4, CHR 0xB8, CHR 0xBA, CHR 0xE5, CHR 0xA4, CHR 0xB1, CHR 0xE8, CHR 0xB4, CHR 0xA5,
      CHR 0xEF, CHR 0xBC, CHR 0x8C, CHR 0xE8, CHR 0xAF, CHR 0xB7, CHR 0xE9, CHR 0x87, CHR 0x8D,
      CHR 0xE6, CHR 0x96, CHR 0xB0, CHR 0xE7, CHR 0x94, CHR 0x9F, CHR 0xE6, CHR 0x88, CHR 0x90]"

definition interrupted :: "task \<Rightarrow> bool" where
  "interrupted t = (status t = ''queued'' \<or> status t = ''processing'')"

definition mark_interrupted :: "timestamp \<Rightarrow> task \<Rightarrow> task" where
  "mark_interrupted now t =
     t\<lparr>status := ''failed'', progress := 0,
       error_message := Some interrupted_error_message,
       message := Some interrupted_message,
       completed_at := Some now, updated_at := now\<rparr>"

text \<open>The per-task \<^verbatim>\<open>UPDATE wiki_projects ... WHERE project_key = ? AND status IN
  ('generating', 'queued')\<close> of the sweep.\<close>

definition fail_linked_project :: "timestamp \<Rightarrow> string \<Rightarrow> project \<Rightarrow> project" where
  "fail_linked_project now pk p =
     (if p_project_key p = pk \<and> (p_status p = ''generating'' \<or> p_status p = ''queued'')
      then p\<lparr>p_status := ''failed'', p_last_failed_at := Some now,
             p_current_task_id := None, p_updated_at := now\<rparr>
      else p)"

fun sweep_projects :: "timestamp \<Rightarrow> task list \<Rightarrow> project list \<Rightarrow> project list" where
  "sweep_projects now [] ps = ps"
| "sweep_projects now (t # ts) ps =
     sweep_projects now ts
       (case project_key t of
          None \<Rightarrow> ps
        | Some pk \<Rightarrow> if pk \<noteq> [] then map (fail_linked_project now pk) ps else ps)"

definition cleanup_interrupted_tasks :: "bool \<Rightarrow> timestamp \<Rightarrow> store \<Rightarrow> nat \<times> store" where
  "cleanup_interrupted_tasks ok now s =
     (if \<not> ok then (0, s)
      else let interrupted_tasks = filter interrupted (tasks s) in
        if interrupted_tasks = [] then (0, s)
        else (length interrupted_tasks,
              s\<lparr>tasks := map (\<lambda>t. if interrupted t then mark_interrupted now t else t) (tasks s),
                projects := sweep_projects now interrupted_tasks (projects s)\<rparr>))"

section \<open>Project registry\<close>

definition make_project_key :: "string \<Rightarrow> string \<Rightarrow> string \<Rightarrow> string" where
  "make_project_key ty ow nm = ty @ '':'' @ ow @ ''/'' @ nm"

definition new_project :: "timestamp \<Rightarrow> string \<Rightarrow> string \<Rightarrow> string \<Rightarrow> string \<Rightarrow> project" where
  "new_project now url ty ow nm =
     \<lparr>p_project_key = make_project_key ty ow nm, p_repo_url = url, p_repo_type = ty,
      p_owner = ow, p_repo_name = nm, p_status = ''not_generated'',
      p_current_task_id = None, p_last_generated_at = None, p_last_failed_at = None,
      p_last_success_date = None, p_generation_count = 0, p_wiki_structure = None,
      p_documents_count = None, p_pages_count = None, p_created_at = now, p_updated_at = now,
      p_progress = 0, p_message = None\<rparr>"

text \<open>\<^verbatim>\<open>get_or_create_wiki_project\<close> re-raises what it catches. The insert fails on the
  \<^verbatim>\<open>CHECK\<close> of \<^verbatim>\<open>repo_type\<close> and on \<^verbatim>\<open>UNIQUE(repo_type, owner, repo_name)\<close>.\<close>

definition get_or_create_wiki_project ::
  "bool \<Rightarrow> timestamp \<Rightarrow> string \<Rightarrow> string \<Rightarrow> string \<Rightarrow> string \<Rightarrow> store \<Rightarrow>
   exn + (project \<times> store)" where
  "get_or_create_wiki_project ok now url ty ow nm s =
     (if \<not> ok then Inl (OtherException ''sqlite3 error'')
      else case find_project (make_project_key ty ow nm) s of
        Some p \<Rightarrow> Inr (p, s)
      | None \<Rightarrow>
          if \<not> repo_type_ok ty \<or>
             find (\<lambda>p. p_repo_type p = ty \<and> p_owner p = ow \<and> p_repo_name p = nm) (projects s)
               \<noteq> None
          then Inl (OtherException ''sqlite3 constraint failed'')
          else Inr (new_project now url ty ow nm,
                    s\<lparr>projects := projects s @ [new_project now url ty ow nm]\<rparr>))"

text \<open>The four \<^verbatim>\<open>SET\<close> lists of \<^verbatim>\<open>update_wiki_project_status\<close>, applied to one row.\<close>

definition set_project_status ::
  "timestamp \<Rightarrow> string \<Rightarrow> string option \<Rightarrow> string option \<Rightarrow> project \<Rightarrow> project" where
  "set_project_status now st tid success_date p =
     (if st = ''generating''
      then p\<lparr>p_status := st, p_current_task_id := tid, p_updated_at := now\<rparr>
      else if st = ''generated''
      then p\<lparr>p_status := st, p_current_task_id := None, p_last_generated_at := Some now,
             p_last_success_date := success_date,
             p_generation_count := p_generation_count p + 1, p_updated_at := now\<rparr>
      else if st = ''failed''
      then p\<lparr>p_status := st, p_current_task_id := None, p_last_failed_at := Some now,
             p_updated_at := now\<rparr>
      else p\<lparr>p_status := st, p_current_task_id := None, p_updated_at := now\<rparr>)"

definition update_wiki_project_status ::
  "bool \<Rightarrow> timestamp \<Rightarrow> string \<Rightarrow> string \<Rightarrow> string option \<Rightarrow> string option \<Rightarrow> store \<Rightarrow>
   bool \<times> store" where
  "update_wiki_project_status ok now pk st tid success_date s =
     (if \<not> ok then (False, s)
      else if find_project pk s \<noteq> None \<and> \<not> project_status_ok st then (False, s)
      else (True,
            s\<lparr>projects := map (\<lambda>p. if p_project_key p = pk
                                    then set_project_status now st tid success_date p else p)
                               (projects s)\<rparr>))"

definition save_wiki_project_result ::
  "bool \<Rightarrow> timestamp \<Rightarrow> string \<Rightarrow> wiki_structure \<Rightarrow> nat \<Rightarrow> string option \<Rightarrow> store \<Rightarrow>
   bool \<times> store" where
  "save_wiki_project_result ok now pk ws ndocs msg s =
     (if \<not> ok then (False, s)
      else let pages_count = length (ws_pages ws);
               msg' = (case msg of
                         Some m \<Rightarrow>
                           if m \<noteq> [] then m
                           else ''Wiki generated successfully with '' @ show_nat pages_count @
                                '' pages''
                       | None \<Rightarrow>
                           ''Wiki generated successfully with '' @ show_nat pages_count @
                           '' pages'')
           in (True,
               s\<lparr>projects := map (\<lambda>p. if p_project_key p = pk
                                       then p\<lparr>p_wiki_structure := Some ws,
                                              p_documents_count := Some ndocs,
                                              p_pages_count := Some pages_count,
                                              p_progress := 100, p_message := Some msg',
                                              p_updated_at := now\<rparr>
                                       else p)
                                  (projects s)\<rparr>))"

section \<open>Status reporting\<close>

text \<open>The dictionary that \<^verbatim>\<open>TaskQueueManager.get_task_status\<close> builds from a task row.\<close>

record task_view =
  v_task_id :: string
  v_status :: string
  v_progress :: int
  v_message :: "string option"
  v_repo_url :: string
  v_repo_type :: string
  v_owner :: string
  v_repo_name :: string
  v_provider :: string
  v_model :: string
  v_language :: string
  v_result :: "task_result option"
  v_error_message :: "string option"
  v_created_at :: timestamp
  v_completed_at :: "timestamp option"

definition task_view_of :: "task \<Rightarrow> task_view" where
  "task_view_of t =
     \<lparr>v_task_id = task_id t, v_status = status t, v_progress = progress t,
      v_message = message t, v_repo_url = repo_url t, v_repo_type = repo_type t,
      v_owner = owner t, v_repo_name = repo_name t, v_provider = provider t,
      v_model = model t, v_language = language t, v_result = result t,
      v_error_message = error_message t, v_created_at = created_at t,
      v_completed_at = completed_at t\<rparr>"

definition get_task_status :: "bool \<Rightarrow> string \<Rightarrow> store \<Rightarrow> task_view option" where
  "get_task_status ok tid s =
     (case get_task ok tid s of Some t \<Rightarrow> Some (task_view_of t) | None \<Rightarrow> None)"

section \<open>Scheduler: submission\<close>

text \<open>
  What \<^verbatim>\<open>create_task\<close> takes from outside: whether each of its three store calls
  works, the time, and the value of \<^verbatim>\<open>str(uuid.uuid4())\<close>. The worker thread that
  \<^verbatim>\<open>create_task\<close> starts lives in memory only and is not part of the store.
\<close>

record submit_env =
  project_ok :: bool
  insert_ok :: bool
  transition_ok :: bool
  submit_time :: timestamp
  new_uuid :: string

definition create_task ::
  "submit_env \<Rightarrow> task_request \<Rightarrow> store \<Rightarrow> (exn + string option) \<times> store" where
  "create_task e req s =
     (let pkey = make_project_key (repo_type req) (owner req) (repo_name req) in
      case get_or_create_wiki_project (project_ok e) (submit_time e)
             (repo_url req) (repo_type req) (owner req) (repo_name req) s of
        Inl x \<Rightarrow> (Inl x, s)
      | Inr (project, s1) \<Rightarrow>
          if p_status project = ''generating'' then (Inr (p_current_task_id project), s1)
          else
            let tid = new_uuid e;
                (success, s2) =
                  create_wiki_generation_task (insert_ok e) (submit_time e) tid req (Some pkey) s1
            in if success
               then (Inr (Some tid),
                     snd (update_wiki_project_status (transition_ok e) (submit_time e) pkey
                            ''generating'' (Some tid) None s2))
               else (Inl (OtherException ''Failed to create task in database''), s2))"

section \<open>Scheduler: the pipeline\<close>

text \<open>
  \<^verbatim>\<open>_process_task\<close> never reads the store: what it does next depends on the task
  dictionary it was handed, on what its collaborators return or raise, and on the boolean
  a store method returns. It is therefore modelled by the list of store calls it issues, in
  order (\<open>process_task_calls\<close>), and by the effect of running them (\<open>process_task\<close>).
  Every call site has a label; the environment says for each label whether the store works
  there and what time it is.
\<close>

datatype site =
    Start | Stage1 | Stage2 | Stage3 | Stage4
  | StructureTask | StructureProject | PageTask nat | PageProject nat
  | Stage5 | SaveResult | SaveMarkdown | Complete | MarkGenerated | FailTask | FailProject

text \<open>
  The collaborators: \<^verbatim>\<open>download_repo\<close>, \<^verbatim>\<open>read_all_documents\<close> (the number of
  documents it returns), the construction and preparation of the retriever,
  \<^verbatim>\<open>len(rag.documents)\<close>, \<^verbatim>\<open>generate_wiki_structure\<close>, the body of the per-page
  \<^verbatim>\<open>try\<close> block of \<^verbatim>\<open>generate_wiki\<close> (retrieval and \<^verbatim>\<open>generate_page_content\<close>) for
  the page at a given index, the message of the cost tracker, and today's date.
\<close>

record env =
  db_ok :: "site \<Rightarrow> bool"
  clock :: "site \<Rightarrow> timestamp"
  download_repo :: "exn + string"
  read_all_documents :: "exn + nat"
  prepare_retriever :: "exn option"
  rag_documents :: nat
  generate_wiki_structure :: "exn + page list"
  generate_page_content :: "nat \<Rightarrow> page \<Rightarrow> exn + string"
  cost_message :: string
  today :: string

datatype db_call =
    UpdateTaskStatus site string string "int option" "string option" "task_result option"
      "string option"
  | UpdateProjectProgress site string int string
  | SaveWikiProjectResult site string wiki_structure nat "string option"
  | SaveMarkdownPages site string "page list"
  | UpdateWikiProjectStatus site string string "string option" "string option"

text \<open>\<^verbatim>\<open>save_markdown_pages\<close> writes the table \<^verbatim>\<open>wiki_pages_rendered\<close> only, which is
  not part of the model.\<close>

fun run_call :: "env \<Rightarrow> db_call \<Rightarrow> store \<Rightarrow> store" where
  "run_call e (UpdateTaskStatus c tid st prog msg res err) s =
     snd (update_task_status (db_ok e c) (clock e c) tid st prog msg res err s)"
| "run_call e (UpdateProjectProgress c pk prog msg) s =
     (if db_ok e c
      then s\<lparr>projects := map (\<lambda>p. if p_project_key p = pk
                                   then p\<lparr>p_progress := prog, p_message := Some msg\<rparr> else p)
                              (projects s)\<rparr>
      else s)"
| "run_call e (SaveWikiProjectResult c pk ws ndocs msg) s =
     snd (save_wiki_project_result (db_ok e c) (clock e c) pk ws ndocs msg s)"
| "run_call e (SaveMarkdownPages c pk pages) s = s"
| "run_call e (UpdateWikiProjectStatus c pk st tid d) s =
     snd (update_wiki_project_status (db_ok e c) (clock e c) pk st tid d s)"

definition run_calls :: "env \<Rightarrow> db_call list \<Rightarrow> store \<Rightarrow> store" where
  "run_calls e cs s = foldl (\<lambda>s c. run_call e c s) s cs"

text \<open>\<^verbatim>\<open>project_key = task.get('project_key')\<close> followed by \<^verbatim>\<open>if project_key:\<close>.\<close>

definition linked_project :: "task \<Rightarrow> string option" where
  "linked_project t =
     (case project_key t of None \<Rightarrow> None | Some pk \<Rightarrow> if pk \<noteq> [] then Some pk else None)"

text \<open>The progress callback that \<^verbatim>\<open>_process_task\<close> hands to \<^verbatim>\<open>generate_wiki\<close>: it
  updates the task row and then the columns \<^verbatim>\<open>progress\<close> and \<^verbatim>\<open>message\<close> of the
  project row.\<close>

definition update_wiki_progress :: "task \<Rightarrow> site \<Rightarrow> site \<Rightarrow> int \<Rightarrow> string \<Rightarrow> db_call list" where
  "update_wiki_progress t c_task c_project progress_pct detail_msg =
     UpdateTaskStatus c_task (task_id t) ''processing'' (Some progress_pct) (Some detail_msg)
       None None
     # (case linked_project t of
          Some pk \<Rightarrow> [UpdateProjectProgress c_project pk progress_pct detail_msg]
        | None \<Rightarrow> [])"

text \<open>The text that replaces the content of a page whose generation raised: a heading
  with the page title, an empty line, a fixed text (here as UTF-8 bytes) and \<^verbatim>\<open>str(e)\<close>.\<close>

definition generation_failed :: string where
  "generation_failed =
     [CHR 0xE7, CHR 0x94, CHR 0x9F, CHR 0xE6, CHR 0x88, CHR 0x90, CHR 0xE5, CHR 0xA4, CHR 0xB1,
      CHR 0xE8, CHR 0xB4, CHR 0xA5, CHR 0x3A, CHR 0x20]"

fun exn_str :: "exn \<Rightarrow> string" where
  "exn_str (TaskTimeoutError m) = m"
| "exn_str (OtherException m) = m"

definition error_placeholder :: "page \<Rightarrow> exn \<Rightarrow> string" where
  "error_placeholder pg x =
     ''# '' @ page_title pg @ [CHR 0x0A, CHR 0x0A] @ generation_failed @ exn_str x"

text \<open>The page loop of \<^verbatim>\<open>generate_wiki\<close>; \<open>n\<close> is \<^verbatim>\<open>len(pages_structure)\<close> and \<open>i\<close>
  the index of \<^verbatim>\<open>enumerate\<close>. \<^verbatim>\<open>int((25 * i) / n)\<close> is the floor of the quotient.\<close>

fun generate_pages :: "env \<Rightarrow> task \<Rightarrow> nat \<Rightarrow> nat \<Rightarrow> page list \<Rightarrow> db_call list \<times> page list" where
  "generate_pages e t n i [] = ([], [])"
| "generate_pages e t n i (pg # rest) =
     (let progress_pct = 70 + (25 * int i) div int n;
          detail_msg = ''Generating page '' @ show_nat (i + 1) @ ''/'' @ show_nat n @ '': '' @
                       page_title pg;
          cb = update_wiki_progress t (PageTask i) (PageProject i) progress_pct detail_msg;
          pg' = (case generate_page_content e i pg of
                   Inr c \<Rightarrow> pg\<lparr>page_content := Some c\<rparr>
                 | Inl x \<Rightarrow> pg\<lparr>page_content := Some (error_placeholder pg x)\<rparr>);
          (calls, pages') = generate_pages e t n (i + 1) rest
      in (cb @ calls, pg' # pages'))"

definition generate_wiki :: "env \<Rightarrow> task \<Rightarrow> db_call list \<times> (exn + wiki_structure \<times> nat)" where
  "generate_wiki e t =
     (case generate_wiki_structure e of
        Inl x \<Rightarrow> ([], Inl x)
      | Inr pages_structure \<Rightarrow>
          let n = length pages_structure;
              cb = update_wiki_progress t StructureTask StructureProject 70
                     (''Wiki structure generated with '' @ show_nat n @ '' pages'');
              (calls, pages') = generate_pages e t n 0 pages_structure
          in (cb @ calls,
              Inr (\<lparr>ws_title = repo_name t @ '' Wiki'',
                    ws_description = ''Documentation for '' @ repo_name t,
                    ws_pages = pages'\<rparr>,
                   rag_documents e)))"

text \<open>The two \<^verbatim>\<open>except\<close> handlers of \<^verbatim>\<open>_process_task\<close>.\<close>

definition on_exception :: "task \<Rightarrow> exn \<Rightarrow> db_call list" where
  "on_exception t x =
     (case x of
        TaskTimeoutError m \<Rightarrow>
          UpdateTaskStatus FailTask (task_id t) ''failed'' (Some 0)
            (Some ''Task execution timeout'') None (Some m)
      | OtherException m \<Rightarrow>
          UpdateTaskStatus FailTask (task_id t) ''failed'' (Some 0)
            (Some ''Task failed'') None (Some m))
     # (case linked_project t of
          Some pk \<Rightarrow> [UpdateWikiProjectStatus FailProject pk ''failed'' None None]
        | None \<Rightarrow> [])"

text \<open>Stage 5: the result is saved on the project row, then on the task row.\<close>

definition save_results :: "env \<Rightarrow> task \<Rightarrow> wiki_structure \<Rightarrow> nat \<Rightarrow> db_call list" where
  "save_results e t ws ndocs =
     (case linked_project t of
        None \<Rightarrow> []
      | Some pk \<Rightarrow>
          SaveWikiProjectResult SaveResult pk ws ndocs (Some (cost_message e))
          # (if db_ok e SaveResult
             then (let markdown_pages = filter (\<lambda>pg. page_id pg \<noteq> []) (ws_pages ws)
                   in if markdown_pages \<noteq> []
                      then [SaveMarkdownPages SaveMarkdown pk markdown_pages] else [])
             else []))"

definition finish_task :: "env \<Rightarrow> task \<Rightarrow> string \<Rightarrow> wiki_structure \<Rightarrow> nat \<Rightarrow> db_call list" where
  "finish_task e t path ws ndocs =
     UpdateTaskStatus Stage5 (task_id t) ''processing'' (Some 95) (Some ''Saving wiki results...'')
       None None
     # save_results e t ws ndocs
     @ [UpdateTaskStatus Complete (task_id t) ''completed'' (Some 100) (Some (cost_message e))
          (Some \<lparr>wiki_structure = ws, documents_count = ndocs, repo_path = path\<rparr>) None]
     @ (case linked_project t of
          Some pk \<Rightarrow> [UpdateWikiProjectStatus MarkGenerated pk ''generated'' None (Some (today e))]
        | None \<Rightarrow> [])"

definition process_task_calls :: "env \<Rightarrow> task \<Rightarrow> db_call list" where
  "process_task_calls e t =
     [UpdateTaskStatus Start (task_id t) ''processing'' (Some 0)
        (Some ''Starting wiki generation...'') None None,
      UpdateTaskStatus Stage1 (task_id t) ''processing'' (Some 5)
        (Some ''Downloading repository...'') None None]
     @ (case download_repo e of
          Inl x \<Rightarrow> on_exception t x
        | Inr path \<Rightarrow>
            UpdateTaskStatus Stage2 (task_id t) ''processing'' (Some 20)
              (Some ''Extracting documents from repository...'') None None
            # (case read_all_documents e of
                 Inl x \<Rightarrow> on_exception t x
               | Inr ndocuments \<Rightarrow>
                   UpdateTaskStatus Stage3 (task_id t) ''processing'' (Some 40)
                     (Some (''Generating embeddings for '' @ show_nat ndocuments @
                            '' documents...'')) None None
                   # (case prepare_retriever e of
                        Some x \<Rightarrow> on_exception t x
                      | None \<Rightarrow>
                          UpdateTaskStatus Stage4 (task_id t) ''processing'' (Some 70)
                            (Some ''Generating wiki structure...'') None None
                          # (case generate_wiki e t of
                               (calls, Inl x) \<Rightarrow> calls @ on_exception t x
                             | (calls, Inr (ws, ndocs)) \<Rightarrow>
                                 calls @ finish_task e t path ws ndocs))))"

definition process_task :: "env \<Rightarrow> task \<Rightarrow> store \<Rightarrow> store" where
  "process_task e t s = run_calls e (process_task_calls e t) s"

section \<open>Concrete data\<close>

definition example_request :: task_request where
  "example_request =
     \<lparr>repo_url = ''https://gitlab.example.com/acme/widgets'', repo_type = ''gitlab'',
      owner = ''acme'', repo_name = ''widgets'', provider = ''google'',
      model = ''gemini-2.5-flash'', language = ''en'', is_comprehensive = True,
      excluded_dirs = None, excluded_files = None, included_dirs = None,
      included_files = None, access_token = Some ''secret'', force_refresh = False\<rparr>"

definition example_task :: task where
  "example_task = new_task 1 ''t1'' example_request (Some ''gitlab:acme/widgets'')"

definition example_project :: project where
  "example_project =
     (new_project 1 ''https://gitlab.example.com/acme/widgets'' ''gitlab'' ''acme'' ''widgets'')
       \<lparr>p_status := ''generating'', p_current_task_id := Some ''t1'',
        p_last_failed_at := Some 0\<rparr>"

definition example_failed_project :: project where
  "example_failed_project =
     (new_project 1 ''https://github.com/acme/gadgets'' ''github'' ''acme'' ''gadgets'')
       \<lparr>p_status := ''failed'', p_last_generated_at := Some 3, p_last_failed_at := Some 5,
        p_last_success_date := Some ''2025-01-01'', p_generation_count := 1\<rparr>"

definition example_store :: store where
  "example_store = \<lparr>tasks = [example_task], projects = [example_project]\<rparr>"

definition example_pages :: "page list" where
  "example_pages =
     [\<lparr>page_id = ''overview'', page_title = ''Overview'', page_description = ''d1'',
       page_importance = ''high'', page_filePaths = [], page_content = None\<rparr>,
      \<lparr>page_id = ''setup'', page_title = ''Setup'', page_description = ''d2'',
       page_importance = ''medium'', page_filePaths = [], page_content = None\<rparr>,
      \<lparr>page_id = ''api'', page_title = ''API'', page_description = ''d3'',
       page_importance = ''medium'', page_filePaths = [], page_content = None\<rparr>]"

definition example_env :: env where
  "example_env =
     \<lparr>db_ok = (\<lambda>c. c \<noteq> SaveResult), clock = (\<lambda>c. 10),
      download_repo = Inr ''/repos/acme/widgets'', read_all_documents = Inr 4,
      prepare_retriever = None, rag_documents = 4,
      generate_wiki_structure = Inr example_pages,
      generate_page_content =
        (\<lambda>i pg. if i = 1 then Inl (OtherException ''boom'') else Inr (''text of '' @ page_title pg)),
      cost_message = ''Wiki generation completed successfully!'', today = ''2025-02-03''\<rparr>"

definition example_submit :: submit_env where
  "example_submit =
     \<lparr>project_ok = True, insert_ok = True, transition_ok = True, submit_time = 3,
      new_uuid = ''u2''\<rparr>"

definition empty_store :: store where
  "empty_store = \<lparr>tasks = [], projects = []\<rparr>"

section \<open>Observations on stores and store calls\<close>

text \<open>A project is linked to a list of tasks when one of them carries its key (and the key
  is a non-empty string, as \<^verbatim>\<open>if project_key:\<close> asks).\<close>

definition linked_to :: "task list \<Rightarrow> project \<Rightarrow> bool" where
  "linked_to ts p =
     (p_project_key p \<noteq> [] \<and> list_ex (\<lambda>t. project_key t = Some (p_project_key p)) ts)"

text \<open>The store calls that change the status of a project; every other call of the pipeline
  leaves the status and the current task of every project as they are.\<close>

fun is_transition :: "db_call \<Rightarrow> bool" where
  "is_transition (UpdateWikiProjectStatus c pk st tid d) = True"
| "is_transition _ = False"

definition project_states :: "store \<Rightarrow> (string \<times> string \<times> string option) list" where
  "project_states s = map (\<lambda>p. (p_project_key p, p_status p, p_current_task_id p)) (projects s)"

text \<open>A store call that marks a task as failed.\<close>

fun marks_failed :: "db_call \<Rightarrow> bool" where
  "marks_failed (UpdateTaskStatus c tid st prog msg res err) = (st = ''failed'')"
| "marks_failed _ = False"

text \<open>The store calls that write the columns \<^verbatim>\<open>progress\<close> and \<^verbatim>\<open>message\<close> of a
  project row, and the values of these two columns over the project table.\<close>

fun writes_project_progress :: "db_call \<Rightarrow> bool" where
  "writes_project_progress (UpdateProjectProgress c pk prog msg) = True"
| "writes_project_progress (SaveWikiProjectResult c pk ws n msg) = True"
| "writes_project_progress _ = False"

definition project_progress :: "store \<Rightarrow> (int \<times> string option) list" where
  "project_progress s = map (\<lambda>p. (p_progress p, p_message p)) (projects s)"

text \<open>The progress values that a list of store calls writes on task rows, with the call
  site and the status written along with each; those that the store records are the ones
  written where the store works.\<close>

fun task_write :: "db_call \<Rightarrow> (site \<times> string \<times> int) list" where
  "task_write (UpdateTaskStatus c tid st (Some p) msg res err) = [(c, st, p)]"
| "task_write _ = []"

definition task_writes :: "db_call list \<Rightarrow> (site \<times> string \<times> int) list" where
  "task_writes cs = concat (map task_write cs)"

definition recorded_progress :: "env \<Rightarrow> db_call list \<Rightarrow> (string \<times> int) list" where
  "recorded_progress e cs = map snd (filter (\<lambda>w. db_ok e (fst w)) (task_writes cs))"

text \<open>A sequence of (status, progress) writes is in order from a starting value: every
  value lies between 0 and 100, every write that keeps the task processing is at least the
  value before it, and a write of a terminal status ends the sequence; a completion is at
  least the value before it, a failure resets the progress.\<close>

fun nondecreasing_until_terminal :: "int \<Rightarrow> (string \<times> int) list \<Rightarrow> bool" where
  "nondecreasing_until_terminal lo [] = True"
| "nondecreasing_until_terminal lo ((st, p) # ws) =
     (0 \<le> p \<and> p \<le> 100 \<and>
      (if st = ''processing'' then lo \<le> p \<and> nondecreasing_until_terminal p ws
       else ws = [] \<and> (st = ''failed'' \<or> st = ''completed'' \<and> lo \<le> p)))"

section \<open>Auxiliary facts\<close>

lemmas example_defs =
  example_store_def example_task_def example_project_def example_request_def
  new_task_def new_project_def make_project_key_def task_request.extend_def task.fields_def

lemma find_map_keep:
  assumes "\<And>x. P (f x) = P x"
  shows "find P (map f xs) = map_option f (find P xs)"
  using assms by (induction xs) auto

lemma find_task_map:
  assumes "\<And>t. task_id (f t) = task_id t"
  shows "find_task tid (s\<lparr>tasks := map f (tasks s)\<rparr>) = map_option f (find_task tid s)"
  using assms by (simp add: find_task_def find_map_keep)

lemma find_project_map:
  assumes "\<And>p. p_project_key (f p) = p_project_key p"
  shows "find_project pk (s\<lparr>projects := map f (projects s)\<rparr>) = map_option f (find_project pk s)"
  using assms by (simp add: find_project_def find_map_keep)

lemma task_id_set_task_fields [simp]:
  "task_id (set_task_fields now st prog msg res err t) = task_id t"
  by (simp add: set_task_fields_def Let_def split: option.splits)

lemma p_project_key_set_project_status [simp]:
  "p_project_key (set_project_status now st tid d p) = p_project_key p"
  by (simp add: set_project_status_def)

lemma map_id_if: "map (\<lambda>x. if P x then f x else x) xs = xs" if "\<And>x. x \<in> set xs \<Longrightarrow> \<not> P x"
  using that by (induction xs) auto

lemma filter_map_other:
  assumes "\<And>q. k (f q) = k q"
  shows "filter (\<lambda>q. k q \<noteq> pk) (map (\<lambda>q. if k q = pk then f q else q) xs)
         = filter (\<lambda>q. k q \<noteq> pk) xs"
  using assms by (induction xs) auto

lemma find_project_key: "find_project pk s = Some p \<Longrightarrow> p_project_key p = pk"
  by (auto simp: find_project_def find_Some_iff)

lemma set_project_status_fields:
  "set_project_status now st tid d p =
     p\<lparr>p_status := st,
       p_current_task_id := (if st = ''generating'' then tid else None),
       p_last_generated_at := (if st = ''generated'' then Some now else p_last_generated_at p),
       p_last_failed_at := (if st = ''failed'' then Some now else p_last_failed_at p),
       p_last_success_date := (if st = ''generated'' then d else p_last_success_date p),
       p_generation_count :=
         (if st = ''generated'' then p_generation_count p + 1 else p_generation_count p),
       p_updated_at := now\<rparr>"
  by (simp add: set_project_status_def)

lemma sweep_projects_map:
  "sweep_projects now ts ps =
     map (\<lambda>p. if linked_to ts p \<and> (p_status p = ''generating'' \<or> p_status p = ''queued'')
              then p\<lparr>p_status := ''failed'', p_last_failed_at := Some now,
                     p_current_task_id := None, p_updated_at := now\<rparr>
              else p) ps"
proof (induction ts arbitrary: ps)
  case Nil
  then show ?case by (simp add: linked_to_def)
next
  case (Cons t ts)
  show ?case
  proof (cases "project_key t")
    case None
    then show ?thesis
      by (simp add: Cons.IH linked_to_def)
  next
    case (Some pk)
    show ?thesis
    proof (cases "pk = []")
      case True
      then have "linked_to (t # ts) p = linked_to ts p" for p
        using Some by (auto simp: linked_to_def)
      then show ?thesis
        using Some True by (simp add: Cons.IH)
    next
      case False
      then show ?thesis
        using Some
        by (auto simp: Cons.IH linked_to_def fail_linked_project_def)
    qed
  qed
qed

lemma find_project_states:
  "find_project pk s = Some p \<Longrightarrow> project_states s' = project_states s \<Longrightarrow>
   \<exists>p'. find_project pk s' = Some p' \<and> p_status p' = p_status p
        \<and> p_current_task_id p' = p_current_task_id p"
  unfolding find_project_def project_states_def
proof (induction "projects s" arbitrary: s s')
  case Nil
  then show ?case by simp
next
  case (Cons q qs)
  from Cons.hyps(2) [symmetric] Cons.prems(2) obtain q' qs' where
    s': "projects s' = q' # qs'" and
    q: "p_project_key q' = p_project_key q" "p_status q' = p_status q"
       "p_current_task_id q' = p_current_task_id q" and
    rest: "map (\<lambda>p. (p_project_key p, p_status p, p_current_task_id p)) qs'
         = map (\<lambda>p. (p_project_key p, p_status p, p_current_task_id p)) qs"
    by (cases "projects s'") auto
  show ?case
  proof (cases "p_project_key q = pk")
    case True
    then show ?thesis
      using Cons.prems(1) Cons.hyps(2) [symmetric] s' q by simp
  next
    case False
    have "\<exists>p'. find (\<lambda>p. p_project_key p = pk) (projects (s'\<lparr>projects := qs'\<rparr>)) = Some p' \<and>
       p_status p' = p_status p \<and> p_current_task_id p' = p_current_task_id p"
      using Cons.prems(1) Cons.hyps(2) [symmetric] False rest
      by (intro Cons.hyps(1) [of "s\<lparr>projects := qs\<rparr>"]) simp_all
    then show ?thesis
      using False s' q by simp
  qed
qed

lemma run_call_project_states:
  "\<not> is_transition c \<Longrightarrow> project_states (run_call e c s) = project_states s"
  by (cases c)
    (auto simp: project_states_def update_task_status_def save_wiki_project_result_def Let_def
      comp_def split: option.splits)

lemma run_calls_project_states:
  "list_all (\<lambda>c. \<not> is_transition c) cs \<Longrightarrow> project_states (run_calls e cs s) = project_states s"
  unfolding run_calls_def
  by (induction cs arbitrary: s) (simp_all add: run_call_project_states)

lemma create_task_generating:
  assumes "find_project (make_project_key (repo_type req) (owner req) (repo_name req)) s = Some p"
    and "p_status p = ''generating''" and "project_ok e"
  shows "create_task e req s = (Inr (p_current_task_id p), s)"
  using assms by (simp add: create_task_def get_or_create_wiki_project_def Let_def)

lemma find_app:
  "find P (xs @ ys) = (case find P xs of Some x \<Rightarrow> Some x | None \<Rightarrow> find P ys)"
  by (induction xs) auto

lemma find_project_append:
  "find_project pk (s\<lparr>projects := projects s @ [q]\<rparr>)
     = (case find_project pk s of Some p \<Rightarrow> Some p
        | None \<Rightarrow> if p_project_key q = pk then Some q else None)"
  by (simp add: find_project_def find_app split: option.splits)

lemma find_project_tasks_upd [simp]:
  "find_project pk (s\<lparr>tasks := ts\<rparr>) = find_project pk s"
  by (simp add: find_project_def)

lemma create_task_links:
  assumes "create_task e req s = (Inr (Some tid), s1)" and "project_ok e" and "transition_ok e"
  shows "\<exists>p. find_project (make_project_key (repo_type req) (owner req) (repo_name req)) s1 = Some p
           \<and> p_status p = ''generating'' \<and> p_current_task_id p = Some tid"
proof -
  let ?pk = "make_project_key (repo_type req) (owner req) (repo_name req)"
  let ?set = "\<lambda>p. if p_project_key p = ?pk
     then set_project_status (submit_time e) ''generating'' (Some (new_uuid e)) None p else p"
  have marked: "\<exists>p. find_project ?pk (snd (update_wiki_project_status True (submit_time e) ?pk
       ''generating'' (Some (new_uuid e)) None s2)) = Some p
       \<and> p_status p = ''generating'' \<and> p_current_task_id p = Some (new_uuid e)"
    if "find_project ?pk s2 = Some q" for s2 q
  proof -
    have "find_project ?pk (s2\<lparr>projects := map ?set (projects s2)\<rparr>)
          = map_option ?set (find_project ?pk s2)"
      by (rule find_project_map) simp
    then show ?thesis
      using that find_project_key [OF that]
      by (simp add: update_wiki_project_status_def project_status_ok_def set_project_status_def)
  qed
  show ?thesis
  proof (cases "find_project ?pk s")
    case (Some q)
    show ?thesis
    proof (cases "p_status q = ''generating''")
      case True
      then show ?thesis
        using assms Some by (auto simp: create_task_generating)
    next
      case False
      then show ?thesis
        using assms Some marked [of "s\<lparr>tasks := tasks s @ [new_task (submit_time e) (new_uuid e) req (Some ?pk)]\<rparr>" q]
        by (auto simp: create_task_def get_or_create_wiki_project_def Let_def
            create_wiki_generation_task_def split: if_splits)
    qed
  next
    case None
    let ?q = "new_project (submit_time e) (repo_url req) (repo_type req) (owner req) (repo_name req)"
    have found: "find_project ?pk (s\<lparr>projects := projects s @ [?q]\<rparr>) = Some ?q"
      using None by (simp add: find_project_append new_project_def)
    have ng: "p_status ?q \<noteq> ''generating''"
      by (simp add: new_project_def)
    show ?thesis
      using assms None ng
        marked [of "s\<lparr>projects := projects s @ [?q],
                     tasks := tasks s @ [new_task (submit_time e) (new_uuid e) req (Some ?pk)]\<rparr>" ?q]
        found
      by (auto simp: create_task_def get_or_create_wiki_project_def Let_def
          create_wiki_generation_task_def find_task_def split: if_splits)
  qed
qed

lemma run_calls_Nil [simp]: "run_calls e [] s = s"
  by (simp add: run_calls_def)

lemma run_calls_Cons [simp]: "run_calls e (c # cs) s = run_calls e cs (run_call e c s)"
  by (simp add: run_calls_def)

lemma run_calls_append [simp]: "run_calls e (xs @ ys) s = run_calls e ys (run_calls e xs s)"
  by (simp add: run_calls_def)

lemma find_task_None_iff: "find_task tid s = None \<longleftrightarrow> tid \<notin> set (map task_id (tasks s))"
  by (auto simp: find_task_def find_None_iff)

lemma run_call_task_ids: "map task_id (tasks (run_call e c s)) = map task_id (tasks s)"
  by (cases c)
    (auto simp: update_task_status_def save_wiki_project_result_def
      update_wiki_project_status_def Let_def comp_def split: option.splits)

lemma run_calls_task_ids: "map task_id (tasks (run_calls e cs s)) = map task_id (tasks s)"
  by (induction cs arbitrary: s) (simp_all add: run_call_task_ids)

lemma run_calls_found:
  assumes "find_task tid s = Some t0"
  shows "\<exists>t1. find_task tid (run_calls e cs s) = Some t1"
proof -
  have "tid \<in> set (map task_id (tasks s))"
    using assms find_task_None_iff [of tid s] by auto
  then have "find_task tid (run_calls e cs s) \<noteq> None"
    by (simp only: find_task_None_iff run_calls_task_ids not_not)
  then show ?thesis by auto
qed

lemma update_wiki_project_status_tasks:
  "tasks (snd (update_wiki_project_status ok now pk st tid d s)) = tasks s"
  by (simp add: update_wiki_project_status_def)

lemma generate_pages_length: "length (snd (generate_pages e t n i pgs)) = length pgs"
  by (induction pgs arbitrary: i) (simp_all add: Let_def case_prod_beta)

lemma generate_pages_nth:
  "k < length pgs \<Longrightarrow>
   snd (generate_pages e t n i pgs) ! k =
     (case generate_page_content e (i + k) (pgs ! k) of
        Inr c \<Rightarrow> (pgs ! k)\<lparr>page_content := Some c\<rparr>
      | Inl x \<Rightarrow> (pgs ! k)\<lparr>page_content := Some (error_placeholder (pgs ! k) x)\<rparr>)"
proof (induction pgs arbitrary: i k)
  case Nil
  then show ?case by simp
next
  case (Cons pg rest)
  show ?case
  proof (cases k)
    case 0
    then show ?thesis by (simp add: Let_def case_prod_beta split: sum.splits)
  next
    case (Suc j)
    then have "j < length rest" using Cons.prems by simp
    from Cons.IH [OF this, of "i + 1"] show ?thesis
      using Suc by (simp add: Let_def case_prod_beta split: sum.splits)
  qed
qed

lemma process_task_calls_success:
  assumes "download_repo e = Inr path" and "read_all_documents e = Inr nd"
    and "prepare_retriever e = None" and "generate_wiki_structure e = Inr pgs"
  shows "process_task_calls e t =
     [UpdateTaskStatus Start (task_id t) ''processing'' (Some 0)
        (Some ''Starting wiki generation...'') None None,
      UpdateTaskStatus Stage1 (task_id t) ''processing'' (Some 5)
        (Some ''Downloading repository...'') None None,
      UpdateTaskStatus Stage2 (task_id t) ''processing'' (Some 20)
        (Some ''Extracting documents from repository...'') None None,
      UpdateTaskStatus Stage3 (task_id t) ''processing'' (Some 40)
        (Some (''Generating embeddings for '' @ show_nat nd @ '' documents...'')) None None,
      UpdateTaskStatus Stage4 (task_id t) ''processing'' (Some 70)
        (Some ''Generating wiki structure...'') None None]
     @ update_wiki_progress t StructureTask StructureProject 70
         (''Wiki structure generated with '' @ show_nat (length pgs) @ '' pages'')
     @ fst (generate_pages e t (length pgs) 0 pgs)
     @ finish_task e t path
         \<lparr>ws_title = repo_name t @ '' Wiki'',
          ws_description = ''Documentation for '' @ repo_name t,
          ws_pages = snd (generate_pages e t (length pgs) 0 pgs)\<rparr>
         (rag_documents e)"
  using assms
  by (simp add: process_task_calls_def generate_wiki_def Let_def split: prod.splits)

lemma process_task_completes:
  assumes "download_repo e = Inr path" and "read_all_documents e = Inr nd"
    and "prepare_retriever e = None" and "generate_wiki_structure e = Inr pgs"
    and "db_ok e Complete" and "find_task (task_id t) s = Some t0"
  shows "\<exists>t'. find_task (task_id t) (process_task e t s) = Some t'
     \<and> status t' = ''completed'' \<and> progress t' = 100
     \<and> result t' = Some \<lparr>wiki_structure =
            \<lparr>ws_title = repo_name t @ '' Wiki'',
             ws_description = ''Documentation for '' @ repo_name t,
             ws_pages = snd (generate_pages e t (length pgs) 0 pgs)\<rparr>,
          documents_count = rag_documents e, repo_path = path\<rparr>"
proof -
  define ws where "ws = \<lparr>ws_title = repo_name t @ '' Wiki'',
          ws_description = ''Documentation for '' @ repo_name t,
          ws_pages = snd (generate_pages e t (length pgs) 0 pgs)\<rparr>"
  define done_call where "done_call =
     UpdateTaskStatus Complete (task_id t) ''completed'' (Some 100) (Some (cost_message e))
       (Some \<lparr>wiki_structure = ws, documents_count = rag_documents e, repo_path = path\<rparr>) None"
  define post where "post = (case linked_project t of
          Some pk \<Rightarrow> [UpdateWikiProjectStatus MarkGenerated pk ''generated'' None (Some (today e))]
        | None \<Rightarrow> [])"
  obtain pre where calls: "process_task_calls e t = pre @ done_call # post"
    using process_task_calls_success [OF assms(1-4), of t]
    by (simp add: finish_task_def ws_def done_call_def post_def)
  define s1 where "s1 = run_calls e pre s"
  obtain t1 where t1: "find_task (task_id t) s1 = Some t1"
    using run_calls_found [OF assms(6)] unfolding s1_def by blast
  let ?f = "\<lambda>r. if task_id r = task_id t
      then set_task_fields (clock e Complete) ''completed'' (Some 100) (Some (cost_message e))
             (Some \<lparr>wiki_structure = ws, documents_count = rag_documents e, repo_path = path\<rparr>)
             None r
      else r"
  have s2: "run_call e done_call s1 = s1\<lparr>tasks := map ?f (tasks s1)\<rparr>"
    using assms(5) t1
    by (simp add: done_call_def update_task_status_def task_status_ok_def)
  have "find_task (task_id t) (s1\<lparr>tasks := map ?f (tasks s1)\<rparr>)
      = map_option ?f (find_task (task_id t) s1)"
    by (rule find_task_map) simp
  moreover have "task_id t1 = task_id t"
    using t1 by (auto simp: find_task_def find_Some_iff)
  ultimately have found: "find_task (task_id t) (run_call e done_call s1)
      = Some (set_task_fields (clock e Complete) ''completed'' (Some 100) (Some (cost_message e))
             (Some \<lparr>wiki_structure = ws, documents_count = rag_documents e, repo_path = path\<rparr>)
             None t1)"
    using t1 s2 by simp
  have "tasks (run_calls e post s') = tasks s'" for s'
    by (simp add: post_def update_wiki_project_status_tasks split: option.splits)
  then have "find_task (task_id t) (run_calls e post s') = find_task (task_id t) s'" for s'
    by (simp add: find_task_def)
  then have "find_task (task_id t) (process_task e t s)
      = find_task (task_id t) (run_call e done_call s1)"
    by (simp add: process_task_def calls s1_def)
  then show ?thesis
    using found by (simp add: set_task_fields_def ws_def)
qed

lemma update_wiki_progress_not_failed:
  "list_all (\<lambda>c. \<not> marks_failed c) (update_wiki_progress t c1 c2 p m)"
  by (simp add: update_wiki_progress_def split: option.splits)

lemma generate_pages_not_failed:
  "list_all (\<lambda>c. \<not> marks_failed c) (fst (generate_pages e t n i pgs))"
  by (induction pgs arbitrary: i)
    (simp_all add: Let_def case_prod_beta update_wiki_progress_not_failed)

lemma finish_task_not_failed:
  "list_all (\<lambda>c. \<not> marks_failed c) (finish_task e t path ws n)"
  by (simp add: finish_task_def save_results_def Let_def split: option.splits)

lemma update_task_status_projects:
  "projects (snd (update_task_status ok now tid st prog msg res err s)) = projects s"
  by (simp add: update_task_status_def)

lemma run_call_project_progress:
  "\<not> writes_project_progress c \<Longrightarrow> project_progress (run_call e c s) = project_progress s"
  by (cases c)
    (auto simp: project_progress_def update_task_status_def update_wiki_project_status_def
      set_project_status_def comp_def)

lemma task_writes_simps [simp]:
  "task_writes [] = []"
  "task_writes (c # cs) = task_write c @ task_writes cs"
  "task_writes (xs @ ys) = task_writes xs @ task_writes ys"
  by (simp_all add: task_writes_def)

lemma task_writes_on_exception [simp]:
  "task_writes (on_exception t x) = [(FailTask, ''failed'', 0)]"
  by (cases x) (simp_all add: on_exception_def split: option.splits)

lemma task_writes_update_wiki_progress [simp]:
  "task_writes (update_wiki_progress t c1 c2 p m) = [(c1, ''processing'', p)]"
  by (simp add: update_wiki_progress_def split: option.splits)

lemma task_writes_generate_pages:
  "map snd (task_writes (fst (generate_pages e t n i pgs)))
     = map (\<lambda>j. (''processing'', 70 + (25 * int j) div int n)) [i..<i + length pgs]"
proof (induction pgs arbitrary: i)
  case Nil
  then show ?case by simp
next
  case (Cons pg rest)
  have "[i..<i + length (pg # rest)] = i # [Suc i..<Suc i + length rest]"
    by (subst upt_rec) simp
  then show ?case
    using Cons.IH [of "i + 1"] by (simp add: Let_def case_prod_beta)
qed

lemma task_writes_finish_task:
  "map snd (task_writes (finish_task e t path ws n))
     = [(''processing'', 95), (''completed'', 100)]"
  by (simp add: finish_task_def save_results_def Let_def split: option.splits)

lemma ndut_mono:
  "nondecreasing_until_terminal lo ws \<Longrightarrow> lo' \<le> lo \<Longrightarrow> nondecreasing_until_terminal lo' ws"
  by (cases ws) (auto split: if_splits)

lemma ndut_filter:
  "nondecreasing_until_terminal lo (map snd ws) \<Longrightarrow>
   nondecreasing_until_terminal lo (map snd (filter P ws))"
proof (induction ws arbitrary: lo)
  case Nil
  then show ?case by simp
next
  case (Cons w ws)
  obtain c st p where w: "w = (c, st, p)" by (cases w)
  show ?case
  proof (cases "st = ''processing''")
    case True
    with Cons.prems w have p: "0 \<le> p" "p \<le> 100" "lo \<le> p"
      and rest: "nondecreasing_until_terminal p (map snd ws)"
      by simp_all
    from Cons.IH [OF rest] have kept: "nondecreasing_until_terminal p (map snd (filter P ws))" .
    show ?thesis
    proof (cases "P w")
      case True
      then show ?thesis using w \<open>st = ''processing''\<close> p kept by simp
    next
      case False
      then show ?thesis using ndut_mono [OF kept p(3)] by simp
    qed
  next
    case False
    with Cons.prems w have "ws = []" by simp
    then show ?thesis using Cons.prems by simp
  qed
qed

lemma ndut_processing_append:
  "sorted (lo # ps) \<Longrightarrow> \<forall>p\<in>set ps. 0 \<le> p \<and> p \<le> 100 \<Longrightarrow>
   nondecreasing_until_terminal (last (lo # ps)) rest \<Longrightarrow>
   nondecreasing_until_terminal lo (map (Pair ''processing'') ps @ rest)"
  by (induction ps arbitrary: lo) auto

lemma page_progress_bounds:
  assumes "j < n"
  shows "70 \<le> 70 + (25 * int j) div int n" and "70 + (25 * int j) div int n \<le> 94"
proof -
  have "0 \<le> (25 * int j) div int n"
    using assms by (simp add: pos_imp_zdiv_nonneg_iff)
  then show "70 \<le> 70 + (25 * int j) div int n" by simp
  have "(25 * j) div n < 25"
    using assms by (intro less_mult_imp_div_less) simp
  then have "int ((25 * j) div n) < 25" by simp
  then have "(25 * int j) div int n < 25"
    by (simp add: zdiv_int)
  then show "70 + (25 * int j) div int n \<le> 94" by simp
qed

lemma page_progress_sorted:
  "sorted (map (\<lambda>j. 70 + (25 * int j) div int n) [0..<n])"
proof -
  have "sorted_wrt (\<lambda>i j. 70 + (25 * int i) div int n \<le> 70 + (25 * int j) div int n) [0..<n]"
    by (rule sorted_wrt_mono_rel [OF _ sorted_upt]) (auto intro: zdiv_mono1)
  then show ?thesis by (simp add: sorted_map)
qed

lemma task_writes_success:
  assumes "download_repo e = Inr path" and "read_all_documents e = Inr nd"
    and "prepare_retriever e = None" and "generate_wiki_structure e = Inr pgs"
  shows "map snd (task_writes (process_task_calls e t))
     = map (Pair ''processing'')
         ([0, 5, 20, 40, 70, 70]
          @ map (\<lambda>i. 70 + (25 * int i) div int (length pgs)) [0..<length pgs] @ [95])
       @ [(''completed'', 100)]"
  unfolding process_task_calls_success [OF assms]
  using task_writes_generate_pages [of e t "length pgs" 0 pgs]
  by (simp add: task_writes_finish_task comp_def)

lemma ndut_success:
  "nondecreasing_until_terminal 0
     (map (Pair ''processing'')
         ([0, 5, 20, 40, 70, 70]
          @ map (\<lambda>i. 70 + (25 * int i) div int n) [0..<n] @ [95])
       @ [(''completed'', 100)])"
proof (rule ndut_processing_append)
  have b: "70 \<le> 70 + (25 * int j) div int n \<and> 70 + (25 * int j) div int n \<le> 94"
    if "j < n" for j
    using page_progress_bounds [OF that] by simp
  show "sorted (0 # [0, 5, 20, 40, 70, 70]
          @ map (\<lambda>i. 70 + (25 * int i) div int n) [0..<n] @ [95])"
    using b page_progress_sorted [of n] by (fastforce simp: sorted_append)
  show "\<forall>p\<in>set ([0, 5, 20, 40, 70, 70]
          @ map (\<lambda>i. 70 + (25 * int i) div int n) [0..<n] @ [95]). 0 \<le> p \<and> p \<le> 100"
    using b by fastforce
  show "nondecreasing_until_terminal
     (last (0 # [0, 5, 20, 40, 70, 70] @ map (\<lambda>i. 70 + (25 * int i) div int n) [0..<n] @ [95]))
     [(''completed'', 100)]"
    by simp
qed

lemma ndut_process_task_calls:
  "nondecreasing_until_terminal 0 (map snd (task_writes (process_task_calls e t)))"
proof (cases "download_repo e")
  case (Inl x)
  then show ?thesis by (simp add: process_task_calls_def)
next
  case path: (Inr path)
  show ?thesis
  proof (cases "read_all_documents e")
    case (Inl x)
    then show ?thesis using path by (simp add: process_task_calls_def)
  next
    case nd: (Inr nd)
    show ?thesis
    proof (cases "prepare_retriever e")
      case (Some x)
      then show ?thesis using path nd by (simp add: process_task_calls_def)
    next
      case None
      show ?thesis
      proof (cases "generate_wiki_structure e")
        case (Inl x)
        then show ?thesis
          using path nd None by (simp add: process_task_calls_def generate_wiki_def)
      next
        case (Inr pgs)
        show ?thesis
          unfolding task_writes_success [OF path nd None Inr] by (rule ndut_success)
      qed
    qed
  qed
qed

section \<open>Properties\<close>

text \<open>
  Claim C2. After one run of the restart sweep in which the store works, every task that
  was queued or processing is failed, with progress 0, the fixed error message and a
  completion time; every project linked to such a task that was generating (or queued) is
  failed, with its current task cleared and its failure time set; every other row is
  unchanged; the number returned is the number of tasks so marked; and no queued or
  processing task remains.
\<close>

theorem cleanup_interrupted_tasks_postcondition:
  assumes "cleanup_interrupted_tasks True now s = (n, s')"
  shows "n = length (filter interrupted (tasks s))
   \<and> tasks s' = map (\<lambda>t. if status t = ''queued'' \<or> status t = ''processing''
                          then t\<lparr>status := ''failed'', progress := 0,
                                 error_message := Some interrupted_error_message,
                                 message := Some interrupted_message,
                                 completed_at := Some now, updated_at := now\<rparr>
                          else t) (tasks s)
   \<and> projects s' =
       map (\<lambda>p. if linked_to (filter interrupted (tasks s)) p
                    \<and> (p_status p = ''generating'' \<or> p_status p = ''queued'')
                 then p\<lparr>p_status := ''failed'', p_last_failed_at := Some now,
                        p_current_task_id := None, p_updated_at := now\<rparr>
                 else p) (projects s)
   \<and> filter interrupted (tasks s') = []"
proof (cases "filter interrupted (tasks s) = []")
  case True
  then have none: "\<And>t. t \<in> set (tasks s) \<Longrightarrow> \<not> interrupted t"
    by (auto simp: filter_empty_conv)
  have s': "s' = s" and n: "n = 0"
    using assms True by (simp_all add: cleanup_interrupted_tasks_def)
  have "map (\<lambda>t. if status t = ''queued'' \<or> status t = ''processing''
                then t\<lparr>status := ''failed'', progress := 0,
                       error_message := Some interrupted_error_message,
                       message := Some interrupted_message,
                       completed_at := Some now, updated_at := now\<rparr>
                else t) (tasks s) = tasks s"
    using none by (intro map_id_if) (simp add: interrupted_def)
  then show ?thesis
    using True by (simp add: s' n linked_to_def)
next
  case False
  have s': "s' = s\<lparr>tasks := map (\<lambda>t. if interrupted t then mark_interrupted now t else t) (tasks s),
                  projects := sweep_projects now (filter interrupted (tasks s)) (projects s)\<rparr>"
    and n: "n = length (filter interrupted (tasks s))"
    using assms False by (simp_all add: cleanup_interrupted_tasks_def Let_def)
  have "filter interrupted (map (\<lambda>t. if interrupted t then mark_interrupted now t else t) xs) = []"
    for xs
    by (induction xs) (simp_all add: interrupted_def mark_interrupted_def)
  then show ?thesis
    by (simp add: s' n sweep_projects_map interrupted_def mark_interrupted_def)
qed

theorem cleanup_interrupted_tasks_postcondition_witness:
  "cleanup_interrupted_tasks True 9 example_store
     = (1, \<lparr>tasks = [mark_interrupted 9 example_task],
            projects = [example_project\<lparr>p_status := ''failed'', p_last_failed_at := Some 9,
                          p_current_task_id := None, p_updated_at := 9\<rparr>]\<rparr>)
   \<and> 1 = length (filter interrupted (tasks example_store))
   \<and> filter interrupted [mark_interrupted 9 example_task] = []"
proof -
  have run: "cleanup_interrupted_tasks True 9 example_store
     = (1, \<lparr>tasks = [mark_interrupted 9 example_task],
            projects = [example_project\<lparr>p_status := ''failed'', p_last_failed_at := Some 9,
                          p_current_task_id := None, p_updated_at := 9\<rparr>]\<rparr>)"
    by (simp add: cleanup_interrupted_tasks_def interrupted_def fail_linked_project_def
        example_defs)
  note post = cleanup_interrupted_tasks_postcondition [OF run]
  have count: "1 = length (filter interrupted (tasks example_store))"
    using post by blast
  have rest: "filter interrupted
      (tasks \<lparr>tasks = [mark_interrupted 9 example_task],
            projects = [example_project\<lparr>p_status := ''failed'', p_last_failed_at := Some 9,
                          p_current_task_id := None, p_updated_at := 9\<rparr>]\<rparr>) = []"
    using post by blast
  show ?thesis
    using run count rest by simp
qed

text \<open>
  Claim C3, as stated, fails: a second update with status processing and progress 0
  replaces the stored start time, and a second terminal update replaces the stored
  completion time.
\<close>

theorem update_task_status_restamps_counterexample:
  "started_at (hd (tasks (snd (update_task_status True 2 ''t1'' ''processing'' (Some 0) None None None
      example_store)))) = Some 2
   \<and> started_at (hd (tasks (snd (update_task_status True 7 ''t1'' ''processing'' (Some 0) None None None
        (snd (update_task_status True 2 ''t1'' ''processing'' (Some 0) None None None
           example_store)))))) = Some 7
   \<and> completed_at (hd (tasks (snd (update_task_status True 5 ''t1'' ''failed'' (Some 0) None None None
        (snd (update_task_status True 3 ''t1'' ''completed'' (Some 100) None None None
           example_store)))))) = Some 5
   \<and> completed_at (hd (tasks (snd (update_task_status True 3 ''t1'' ''completed'' (Some 100) None None None
           example_store)))) = Some 3"
  by (simp add: update_task_status_def find_task_def task_status_ok_def set_task_fields_def
      example_defs)

text \<open>
  Claim C3, amended. An update of an existing task sets \<open>started_at\<close> to the current time
  whenever the status is processing and the progress is 0, and sets \<open>completed_at\<close> to the
  current time whenever the status is completed or failed, whatever was stored before; any
  other update leaves the two columns as they were. When the store fails, nothing changes.
\<close>

theorem update_task_status_timestamps:
  assumes "find_task tid s = Some t" and "task_status_ok st"
  shows "(\<exists>t'. update_task_status True now tid st prog msg res err s
             = (True, s\<lparr>tasks := map (\<lambda>t. if task_id t = tid
                                 then set_task_fields now st prog msg res err t else t) (tasks s)\<rparr>)
     \<and> find_task tid (snd (update_task_status True now tid st prog msg res err s)) = Some t'
     \<and> started_at t' = (if st = ''processing'' \<and> prog = Some 0 then Some now else started_at t)
     \<and> completed_at t' = (if st = ''completed'' \<or> st = ''failed'' then Some now
                           else completed_at t))
     \<and> update_task_status False now tid st prog msg res err s = (False, s)"
proof -
  let ?f = "\<lambda>t. if task_id t = tid then set_task_fields now st prog msg res err t else t"
  have upd: "update_task_status True now tid st prog msg res err s
        = (True, s\<lparr>tasks := map ?f (tasks s)\<rparr>)"
    using assms by (simp add: update_task_status_def)
  have "find_task tid (s\<lparr>tasks := map ?f (tasks s)\<rparr>) = map_option ?f (find_task tid s)"
    by (rule find_task_map) simp
  moreover have "task_id t = tid"
    using assms(1) by (auto simp: find_task_def find_Some_iff)
  ultimately have found: "find_task tid (s\<lparr>tasks := map ?f (tasks s)\<rparr>)
      = Some (set_task_fields now st prog msg res err t)"
    using assms(1) by simp
  have "started_at (set_task_fields now st prog msg res err t)
          = (if st = ''processing'' \<and> prog = Some 0 then Some now else started_at t)"
    by (simp add: set_task_fields_def Let_def split: option.splits)
  moreover have "completed_at (set_task_fields now st prog msg res err t)
          = (if st = ''completed'' \<or> st = ''failed'' then Some now else completed_at t)"
    by (simp add: set_task_fields_def Let_def split: option.splits)
  ultimately have stamped: "\<exists>t'. update_task_status True now tid st prog msg res err s
             = (True, s\<lparr>tasks := map ?f (tasks s)\<rparr>)
     \<and> find_task tid (snd (update_task_status True now tid st prog msg res err s)) = Some t'
     \<and> started_at t' = (if st = ''processing'' \<and> prog = Some 0 then Some now else started_at t)
     \<and> completed_at t' = (if st = ''completed'' \<or> st = ''failed'' then Some now
                           else completed_at t)"
    using upd found by simp
  have failing: "update_task_status False now tid st prog msg res err s = (False, s)"
    by (simp add: update_task_status_def)
  show ?thesis
    using stamped failing by (rule conjI)
qed

theorem update_task_status_timestamps_witness:
  "find_task ''t1'' example_store = Some example_task \<and> task_status_ok ''failed'' \<and>
   (\<exists>t'. find_task ''t1'' (snd (update_task_status True 9 ''t1'' ''failed'' (Some 0) None None None
             example_store)) = Some t'
      \<and> started_at t' = started_at example_task \<and> completed_at t' = Some 9)"
proof -
  have a: "find_task ''t1'' example_store = Some example_task"
    by (simp add: find_task_def example_defs)
  have b: "task_status_ok ''failed''"
    by (simp add: task_status_ok_def)
  show ?thesis
    using a b update_task_status_timestamps [OF a b, of 9 "Some 0" None None None]
    by auto
qed

text \<open>
  Claim C4, as stated, fails: the transition to generating keeps the timestamps of the
  project, and a transition for a key that has no row succeeds without any check.
\<close>

theorem update_wiki_project_status_counterexample:
  "find_project ''github:acme/gadgets''
     (snd (update_wiki_project_status True 9 ''github:acme/gadgets'' ''generating'' (Some ''t2'') None
        \<lparr>tasks = [], projects = [example_failed_project]\<rparr>))
   = Some (example_failed_project
        \<lparr>p_status := ''generating'', p_current_task_id := Some ''t2'', p_updated_at := 9\<rparr>)
   \<and> p_last_failed_at (example_failed_project
        \<lparr>p_status := ''generating'', p_current_task_id := Some ''t2'', p_updated_at := 9\<rparr>) = Some 5
   \<and> p_last_generated_at (example_failed_project
        \<lparr>p_status := ''generating'', p_current_task_id := Some ''t2'', p_updated_at := 9\<rparr>) = Some 3
   \<and> find_project ''github:no/such'' \<lparr>tasks = [], projects = [example_failed_project]\<rparr> = None
   \<and> update_wiki_project_status True 9 ''github:no/such'' ''failed'' None None
        \<lparr>tasks = [], projects = [example_failed_project]\<rparr>
      = (True, \<lparr>tasks = [], projects = [example_failed_project]\<rparr>)"
  by (simp add: update_wiki_project_status_def find_project_def project_status_ok_def
      set_project_status_def example_failed_project_def new_project_def make_project_key_def)

text \<open>
  Claim C4, amended. For an existing key and a status the table accepts, the transition
  returns true and changes exactly these columns of that row: generating sets the status
  and the current task; generated clears the current task, sets the generation time and
  the success date and increments the count; failed clears the current task and sets the
  failure time; not_generated clears the current task; each also sets the update time.
  Other rows and the tasks are untouched. For a key with no row it returns true and changes
  nothing, and when the store fails it returns false and changes nothing.
\<close>

theorem update_wiki_project_status_field_sets:
  "(find_project pk s = Some p \<and> project_status_ok st \<longrightarrow>
      fst (update_wiki_project_status True now pk st tid d s) = True
    \<and> tasks (snd (update_wiki_project_status True now pk st tid d s)) = tasks s
    \<and> find_project pk (snd (update_wiki_project_status True now pk st tid d s))
        = Some (p\<lparr>p_status := st,
             p_current_task_id := (if st = ''generating'' then tid else None),
             p_last_generated_at := (if st = ''generated'' then Some now else p_last_generated_at p),
             p_last_failed_at := (if st = ''failed'' then Some now else p_last_failed_at p),
             p_last_success_date := (if st = ''generated'' then d else p_last_success_date p),
             p_generation_count :=
               (if st = ''generated'' then p_generation_count p + 1 else p_generation_count p),
             p_updated_at := now\<rparr>)
    \<and> filter (\<lambda>q. p_project_key q \<noteq> pk)
         (projects (snd (update_wiki_project_status True now pk st tid d s)))
        = filter (\<lambda>q. p_project_key q \<noteq> pk) (projects s))
   \<and> (find_project pk s = None \<longrightarrow> update_wiki_project_status True now pk st tid d s = (True, s))
   \<and> update_wiki_project_status False now pk st tid d s = (False, s)"
proof (intro conjI impI)
  let ?f = "\<lambda>q. if p_project_key q = pk then set_project_status now st tid d q else q"
  show "update_wiki_project_status False now pk st tid d s = (False, s)"
    by (simp add: update_wiki_project_status_def)
  show "update_wiki_project_status True now pk st tid d s = (True, s)"
    if "find_project pk s = None"
  proof -
    have "map ?f (projects s) = projects s"
      using that by (intro map_id_if) (auto simp: find_project_def find_None_iff)
    then show ?thesis
      using that by (simp add: update_wiki_project_status_def)
  qed
  assume a: "find_project pk s = Some p \<and> project_status_ok st"
  then have upd: "update_wiki_project_status True now pk st tid d s
      = (True, s\<lparr>projects := map ?f (projects s)\<rparr>)"
    by (simp add: update_wiki_project_status_def)
  show "fst (update_wiki_project_status True now pk st tid d s) = True"
    by (simp add: upd)
  show "tasks (snd (update_wiki_project_status True now pk st tid d s)) = tasks s"
    by (simp add: upd)
  have "find_project pk (s\<lparr>projects := map ?f (projects s)\<rparr>) = map_option ?f (find_project pk s)"
    by (rule find_project_map) simp
  then show "find_project pk (snd (update_wiki_project_status True now pk st tid d s))
        = Some (p\<lparr>p_status := st,
             p_current_task_id := (if st = ''generating'' then tid else None),
             p_last_generated_at := (if st = ''generated'' then Some now else p_last_generated_at p),
             p_last_failed_at := (if st = ''failed'' then Some now else p_last_failed_at p),
             p_last_success_date := (if st = ''generated'' then d else p_last_success_date p),
             p_generation_count :=
               (if st = ''generated'' then p_generation_count p + 1 else p_generation_count p),
             p_updated_at := now\<rparr>)"
    using a find_project_key [of pk s p]
    by (simp add: upd set_project_status_fields [symmetric])
  show "filter (\<lambda>q. p_project_key q \<noteq> pk)
         (projects (snd (update_wiki_project_status True now pk st tid d s)))
        = filter (\<lambda>q. p_project_key q \<noteq> pk) (projects s)"
    unfolding upd by (simp add: filter_map_other)
qed

theorem update_wiki_project_status_field_sets_witness:
  "find_project ''gitlab:acme/widgets'' example_store = Some example_project
   \<and> project_status_ok ''generated''
   \<and> find_project ''gitlab:acme/widgets''
        (snd (update_wiki_project_status True 9 ''gitlab:acme/widgets'' ''generated'' None
                (Some ''2025-02-03'') example_store))
      = Some (example_project\<lparr>p_status := ''generated'', p_current_task_id := None,
                p_last_generated_at := Some 9, p_last_success_date := Some ''2025-02-03'',
                p_generation_count := 1, p_updated_at := 9\<rparr>)
   \<and> find_project ''x'' example_store = None
   \<and> update_wiki_project_status True 9 ''x'' ''failed'' None None example_store
        = (True, example_store)"
proof -
  have a: "find_project ''gitlab:acme/widgets'' example_store = Some example_project"
    by (simp add: find_project_def example_defs)
  have b: "project_status_ok ''generated''"
    by (simp add: project_status_ok_def)
  have c: "find_project ''x'' example_store = None"
    by (simp add: find_project_def example_defs)
  have g: "p_generation_count example_project = 0" "p_last_failed_at example_project = Some 0"
    by (simp_all add: example_defs)
  show ?thesis
    using a b c g
      update_wiki_project_status_field_sets
        [of "''gitlab:acme/widgets''" example_store example_project "''generated''" 9 None
            "Some ''2025-02-03''"]
      update_wiki_project_status_field_sets
        [of "''x''" example_store example_project "''failed''" 9 None None]
    by simp
qed

text \<open>
  Claim C9. The status query returns None for a task id that has no row, and when the
  store read fails.
\<close>

theorem get_task_status_unknown:
  "find_task tid s = None \<or> \<not> ok \<Longrightarrow> get_task_status ok tid s = None"
  by (auto simp: get_task_status_def get_task_def)

theorem get_task_status_unknown_witness:
  "find_task ''nope'' example_store = None \<and> get_task_status True ''nope'' example_store = None
   \<and> get_task_status False ''t1'' example_store = None"
  using get_task_status_unknown [of "''nope''" example_store True]
    get_task_status_unknown [of "''t1''" example_store False]
  by (simp add: find_task_def example_store_def example_task_def new_task_def
      task_request.extend_def task.fields_def example_request_def)

text \<open>
  Claim C10. The view has no field for the access token, and replacing the stored access
  tokens of the task rows in any way leaves every view unchanged.
\<close>

theorem get_task_status_hides_access_token:
  "get_task_status ok tid (s\<lparr>tasks := map (\<lambda>t. t\<lparr>access_token := tok t\<rparr>) (tasks s)\<rparr>)
     = get_task_status ok tid s"
proof -
  have "find_task tid (s\<lparr>tasks := map (\<lambda>t. t\<lparr>access_token := tok t\<rparr>) (tasks s)\<rparr>)
        = map_option (\<lambda>t. t\<lparr>access_token := tok t\<rparr>) (find_task tid s)"
    by (rule find_task_map) simp
  then show ?thesis
    by (cases "find_task tid s") (simp_all add: get_task_status_def get_task_def task_view_of_def)
qed

text \<open>
  Claim C1. When the store can be read and the project row of the subject is generating,
  \<open>create_task\<close> returns the current task of that row and leaves the store as it is: no
  task row is inserted. Consequently, once a submission has returned a task id and marked the
  project as generating, and while the pipeline has issued nothing but progress writes, two
  further submissions for the same subject return that same id, and the task table is
  unchanged.
\<close>

theorem create_task_single_flight:
  assumes "project_ok e1" and "project_ok e2"
  shows "(find_project (make_project_key (repo_type req) (owner req) (repo_name req)) s = Some p
            \<and> p_status p = ''generating''
          \<longrightarrow> create_task e1 req s = (Inr (p_current_task_id p), s))
       \<and> (create_task e0 req s = (Inr (Some tid), s0) \<and> project_ok e0 \<and> transition_ok e0
            \<and> list_all (\<lambda>c. \<not> is_transition c) cs
          \<longrightarrow> create_task e1 req (run_calls env cs s0) = (Inr (Some tid), run_calls env cs s0)
            \<and> create_task e2 req (snd (create_task e1 req (run_calls env cs s0)))
                = (Inr (Some tid), run_calls env cs s0)
            \<and> length (tasks (snd (create_task e2 req (snd (create_task e1 req (run_calls env cs s0))))))
                = length (tasks (run_calls env cs s0)))"
proof (intro conjI impI)
  let ?pk = "make_project_key (repo_type req) (owner req) (repo_name req)"
  show "create_task e1 req s = (Inr (p_current_task_id p), s)"
    if "find_project ?pk s = Some p \<and> p_status p = ''generating''"
    using that assms(1) by (simp add: create_task_generating)
  assume a: "create_task e0 req s = (Inr (Some tid), s0) \<and> project_ok e0 \<and> transition_ok e0
            \<and> list_all (\<lambda>c. \<not> is_transition c) cs"
  then obtain p where p: "find_project ?pk s0 = Some p" "p_status p = ''generating''"
      "p_current_task_id p = Some tid"
    using create_task_links [of e0 req s tid s0] by blast
  have "project_states (run_calls env cs s0) = project_states s0"
    using a by (simp add: run_calls_project_states)
  with p obtain p' where p': "find_project ?pk (run_calls env cs s0) = Some p'"
      "p_status p' = ''generating''" "p_current_task_id p' = Some tid"
    using find_project_states [of ?pk s0 p "run_calls env cs s0"] by auto
  show first: "create_task e1 req (run_calls env cs s0) = (Inr (Some tid), run_calls env cs s0)"
    using create_task_generating [OF p'(1,2) assms(1)] p'(3) by simp
  show second: "create_task e2 req (snd (create_task e1 req (run_calls env cs s0)))
                = (Inr (Some tid), run_calls env cs s0)"
    using create_task_generating [OF p'(1,2) assms(2)] p'(3) first by simp
  show "length (tasks (snd (create_task e2 req (snd (create_task e1 req (run_calls env cs s0))))))
                = length (tasks (run_calls env cs s0))"
    by (simp add: second)
qed

theorem create_task_single_flight_witness:
  "create_task example_submit example_request example_store = (Inr (Some ''t1''), example_store)
   \<and> fst (create_task example_submit example_request empty_store) = Inr (Some ''u2'')
   \<and> fst (create_task (example_submit\<lparr>new_uuid := ''u3''\<rparr>) example_request
        (run_calls example_env
           [UpdateTaskStatus Start ''u2'' ''processing'' (Some 0) None None None,
            UpdateProjectProgress StructureProject ''gitlab:acme/widgets'' 70 ''m'']
           (snd (create_task example_submit example_request empty_store))))
      = Inr (Some ''u2'')"
proof -
  have ok: "project_ok example_submit" "transition_ok example_submit"
      "project_ok (example_submit\<lparr>new_uuid := ''u3''\<rparr>)"
    by (simp_all add: example_submit_def)
  have found: "find_project
      (make_project_key (repo_type example_request) (owner example_request)
         (repo_name example_request)) example_store = Some example_project"
    by (simp add: find_project_def example_defs)
  have gen: "p_status example_project = ''generating''"
      "p_current_task_id example_project = Some ''t1''"
    by (simp_all add: example_defs)
  have fresh: "fst (create_task example_submit example_request empty_store) = Inr (Some ''u2'')"
    by (simp add: create_task_def get_or_create_wiki_project_def create_wiki_generation_task_def
        repo_type_ok_def find_project_def find_task_def Let_def example_submit_def
        empty_store_def example_request_def new_project_def)
  define s0 where "s0 = snd (create_task example_submit example_request empty_store)"
  have first: "create_task example_submit example_request empty_store = (Inr (Some ''u2''), s0)"
    using fresh by (simp add: s0_def prod_eq_iff)
  have calls: "list_all (\<lambda>c. \<not> is_transition c)
       [UpdateTaskStatus Start ''u2'' ''processing'' (Some 0) None None None,
        UpdateProjectProgress StructureProject ''gitlab:acme/widgets'' 70 ''m'']"
    by simp
  note sf = create_task_single_flight [OF ok(1) ok(3)]
  have one: "create_task example_submit example_request example_store
      = (Inr (Some ''t1''), example_store)"
    using sf [of example_request example_store example_project] found gen by simp
  define cs where "cs = [UpdateTaskStatus Start ''u2'' ''processing'' (Some 0) None None None,
            UpdateProjectProgress StructureProject ''gitlab:acme/widgets'' 70 ''m'']"
  have calls': "list_all (\<lambda>c. \<not> is_transition c) cs"
    by (simp add: cs_def)
  have hyp: "create_task example_submit example_request empty_store = (Inr (Some ''u2''), s0)
      \<and> project_ok example_submit \<and> transition_ok example_submit
      \<and> list_all (\<lambda>c. \<not> is_transition c) cs"
    using first ok(1,2) calls' by (intro conjI)
  have two: "create_task (example_submit\<lparr>new_uuid := ''u3''\<rparr>) example_request
        (run_calls example_env cs s0) = (Inr (Some ''u2''), run_calls example_env cs s0)"
    by (rule create_task_single_flight [OF ok(3) ok(3), where req = example_request and s = empty_store and ?e0.0 = example_submit
          and tid = "''u2''" and ?s0.0 = s0 and cs = cs and env = example_env,
          THEN conjunct2, THEN mp, OF hyp, THEN conjunct1])
  have three: "fst (create_task (example_submit\<lparr>new_uuid := ''u3''\<rparr>) example_request
        (run_calls example_env cs s0)) = Inr (Some ''u2'')"
    by (simp only: two fst_conv)
  show ?thesis
    using one fresh three unfolding s0_def cs_def by (intro conjI)
qed

text \<open>
  Claim C5. In a run where stages 1 to 4 succeed, the save of the result on the project row
  fails (it returns false and changes nothing) and the store accepts the final task update,
  the task row ends completed, with progress 100 and the result payload; no store call of
  the run marks the task as failed.
\<close>

theorem persist_failure_keeps_task_completed:
  assumes "download_repo e = Inr path" and "read_all_documents e = Inr nd"
    and "prepare_retriever e = None" and "generate_wiki_structure e = Inr pgs"
    and "\<not> db_ok e SaveResult" and "db_ok e Complete"
    and "find_task (task_id t) s = Some t0"
  shows "(\<exists>t'. find_task (task_id t) (process_task e t s) = Some t'
           \<and> status t' = ''completed'' \<and> progress t' = 100
           \<and> result t' = Some \<lparr>wiki_structure =
                  \<lparr>ws_title = repo_name t @ '' Wiki'',
                   ws_description = ''Documentation for '' @ repo_name t,
                   ws_pages = snd (generate_pages e t (length pgs) 0 pgs)\<rparr>,
                documents_count = rag_documents e, repo_path = path\<rparr>)
       \<and> list_all (\<lambda>c. \<not> marks_failed c) (process_task_calls e t)
       \<and> save_wiki_project_result (db_ok e SaveResult) now pk ws n msg s' = (False, s')"
proof (intro conjI)
  show "\<exists>t'. find_task (task_id t) (process_task e t s) = Some t'
           \<and> status t' = ''completed'' \<and> progress t' = 100
           \<and> result t' = Some \<lparr>wiki_structure =
                  \<lparr>ws_title = repo_name t @ '' Wiki'',
                   ws_description = ''Documentation for '' @ repo_name t,
                   ws_pages = snd (generate_pages e t (length pgs) 0 pgs)\<rparr>,
                documents_count = rag_documents e, repo_path = path\<rparr>"
    by (rule process_task_completes [OF assms(1-4) assms(6) assms(7)])
  show "list_all (\<lambda>c. \<not> marks_failed c) (process_task_calls e t)"
    unfolding process_task_calls_success [OF assms(1-4)]
    by (simp add: update_wiki_progress_not_failed generate_pages_not_failed
        finish_task_not_failed)
  show "save_wiki_project_result (db_ok e SaveResult) now pk ws n msg s' = (False, s')"
    using assms(5) by (simp add: save_wiki_project_result_def)
qed

theorem persist_failure_keeps_task_completed_witness:
  "\<not> db_ok example_env SaveResult
   \<and> (\<exists>t'. find_task ''t1'' (process_task example_env example_task example_store) = Some t'
         \<and> status t' = ''completed'' \<and> progress t' = 100 \<and> result t' \<noteq> None)"
proof -
  have h: "download_repo example_env = Inr ''/repos/acme/widgets''"
      "read_all_documents example_env = Inr 4" "prepare_retriever example_env = None"
      "generate_wiki_structure example_env = Inr example_pages"
      "\<not> db_ok example_env SaveResult" "db_ok example_env Complete"
    by (simp_all add: example_env_def)
  have row: "find_task (task_id example_task) example_store = Some example_task"
    by (simp add: example_defs find_task_def)
  have tid: "task_id example_task = ''t1''"
    by (simp add: example_defs)
  from persist_failure_keeps_task_completed [OF h row, THEN conjunct1]
  obtain t' r where "find_task (task_id example_task)
        (process_task example_env example_task example_store) = Some t'"
      "status t' = ''completed''" "progress t' = 100" "result t' = Some r"
    by blast
  then show ?thesis
    using h(5) tid by auto
qed

text \<open>
  Claim C6. In a run where stages 1 to 3 and the structure generation succeed, the content
  generation raises for exactly one of the pages, and the store accepts the final task
  update, the task row ends completed and its result holds all the pages: the page that
  failed carries the error placeholder, every other page carries its generated content.
\<close>

theorem page_failure_is_isolated:
  assumes "download_repo e = Inr path" and "read_all_documents e = Inr nd"
    and "prepare_retriever e = None" and "generate_wiki_structure e = Inr pgs"
    and "k < length pgs" and "generate_page_content e k (pgs ! k) = Inl x"
    and "\<forall>i<length pgs. i \<noteq> k \<longrightarrow> generate_page_content e i (pgs ! i) = Inr (c i)"
    and "db_ok e Complete" and "find_task (task_id t) s = Some t0"
  shows "\<exists>t' r. find_task (task_id t) (process_task e t s) = Some t'
           \<and> status t' = ''completed'' \<and> result t' = Some r
           \<and> length (ws_pages (wiki_structure r)) = length pgs
           \<and> ws_pages (wiki_structure r) ! k
               = (pgs ! k)\<lparr>page_content := Some (error_placeholder (pgs ! k) x)\<rparr>
           \<and> (\<forall>i<length pgs. i \<noteq> k \<longrightarrow>
                 ws_pages (wiki_structure r) ! i = (pgs ! i)\<lparr>page_content := Some (c i)\<rparr>)"
proof -
  let ?pages = "snd (generate_pages e t (length pgs) 0 pgs)"
  have len: "length ?pages = length pgs"
    by (rule generate_pages_length)
  have bad: "?pages ! k = (pgs ! k)\<lparr>page_content := Some (error_placeholder (pgs ! k) x)\<rparr>"
    using generate_pages_nth [OF assms(5), of e t "length pgs" 0] assms(6) by simp
  have good: "?pages ! i = (pgs ! i)\<lparr>page_content := Some (c i)\<rparr>"
    if "i < length pgs" "i \<noteq> k" for i
    using generate_pages_nth [OF that(1), of e t "length pgs" 0] assms(7) that by simp
  from process_task_completes [OF assms(1-4) assms(8) assms(9)]
  obtain t' where t': "find_task (task_id t) (process_task e t s) = Some t'"
      "status t' = ''completed''"
      "result t' = Some \<lparr>wiki_structure =
                  \<lparr>ws_title = repo_name t @ '' Wiki'',
                   ws_description = ''Documentation for '' @ repo_name t,
                   ws_pages = ?pages\<rparr>,
                documents_count = rag_documents e, repo_path = path\<rparr>"
    by blast
  show ?thesis
    using t' len bad good by simp
qed

theorem page_failure_is_isolated_witness:
  "generate_page_content example_env 1 (example_pages ! 1) = Inl (OtherException ''boom'')
   \<and> (\<exists>t' r. find_task ''t1'' (process_task example_env example_task example_store) = Some t'
         \<and> status t' = ''completed'' \<and> result t' = Some r
         \<and> length (ws_pages (wiki_structure r)) = 3
         \<and> page_content (ws_pages (wiki_structure r) ! 1)
             = Some (error_placeholder (example_pages ! 1) (OtherException ''boom''))
         \<and> page_content (ws_pages (wiki_structure r) ! 0) = Some ''text of Overview''
         \<and> page_content (ws_pages (wiki_structure r) ! 2) = Some ''text of API'')"
proof -
  have h: "download_repo example_env = Inr ''/repos/acme/widgets''"
      "read_all_documents example_env = Inr 4" "prepare_retriever example_env = None"
      "generate_wiki_structure example_env = Inr example_pages"
    by (simp_all add: example_env_def)
  have k: "1 < length example_pages"
    by (simp add: example_pages_def)
  have bad: "generate_page_content example_env 1 (example_pages ! 1) = Inl (OtherException ''boom'')"
    by (simp add: example_env_def)
  have good: "\<forall>i<length example_pages. i \<noteq> 1 \<longrightarrow>
      generate_page_content example_env i (example_pages ! i)
        = Inr (''text of '' @ page_title (example_pages ! i))"
    by (simp add: example_env_def)
  have ok: "db_ok example_env Complete"
    by (simp add: example_env_def)
  have row: "find_task (task_id example_task) example_store = Some example_task"
    by (simp add: example_defs find_task_def)
  have tid: "task_id example_task = ''t1''"
    by (simp add: example_defs)
  have len: "length example_pages = 3"
    by (simp add: example_pages_def)
  have titles: "page_title (example_pages ! 0) = ''Overview''"
      "page_title (example_pages ! 2) = ''API''"
    by (simp_all add: example_pages_def)
  from page_failure_is_isolated [OF h k bad good ok row]
  obtain t' r where *: "find_task (task_id example_task)
        (process_task example_env example_task example_store) = Some t'"
      "status t' = ''completed''" "result t' = Some r"
      "length (ws_pages (wiki_structure r)) = length example_pages"
      "ws_pages (wiki_structure r) ! 1 = (example_pages ! 1)
         \<lparr>page_content := Some (error_placeholder (example_pages ! 1) (OtherException ''boom''))\<rparr>"
      "\<forall>i<length example_pages. i \<noteq> 1 \<longrightarrow> ws_pages (wiki_structure r) ! i
         = (example_pages ! i)\<lparr>page_content := Some (''text of '' @ page_title (example_pages ! i))\<rparr>"
    by blast
  have "page_content (ws_pages (wiki_structure r) ! 0) = Some ''text of Overview''"
    using *(6) len titles(1) by simp
  moreover have "page_content (ws_pages (wiki_structure r) ! 2) = Some ''text of API''"
    using *(6) len titles(2) by simp
  ultimately show ?thesis
    using * bad len tid by auto
qed

text \<open>
  Claim C7, as stated, fails: the progress callback of the page generation writes its
  progress and message onto the project row as well.
\<close>

theorem progress_mirror_counterexample:
  "project_progress example_store = [(0, None)]
   \<and> project_progress
        (run_calls example_env
           (update_wiki_progress example_task StructureTask StructureProject 70 ''m'')
           example_store) = [(70, Some ''m'')]"
  by (simp add: project_progress_def update_wiki_progress_def linked_project_def
      update_task_status_def task_status_ok_def example_env_def example_defs find_task_def)

text \<open>
  Claim C7, amended. An update of a task row never touches the project table. The progress
  callback of the wiki generation (after the structure and before every page) updates the
  task row and, when the task is linked to a project and the store works, sets the progress
  and the message of that project row to the values of the checkpoint, leaving every other
  column and row as it was. No store call other than this mirror write and the save of the
  result changes the progress or the message of a project.
\<close>

theorem progress_mirror_on_project:
  "projects (run_call e (UpdateTaskStatus c tid st prog msg res err) s) = projects s
   \<and> projects (run_calls e (update_wiki_progress t c1 c2 pct m) s)
       = (case linked_project t of
            None \<Rightarrow> projects s
          | Some pk \<Rightarrow>
              if db_ok e c2
              then map (\<lambda>p. if p_project_key p = pk
                             then p\<lparr>p_progress := pct, p_message := Some m\<rparr> else p)
                     (projects s)
              else projects s)
   \<and> (\<not> writes_project_progress c' \<longrightarrow>
        project_progress (run_call e c' s) = project_progress s)"
  by (simp add: update_wiki_progress_def update_task_status_projects run_call_project_progress
      split: option.splits)

theorem progress_mirror_on_project_witness:
  "\<not> writes_project_progress (UpdateWikiProjectStatus FailProject ''gitlab:acme/widgets'' ''failed''
        None None)
   \<and> project_progress
        (run_call example_env
           (UpdateWikiProjectStatus FailProject ''gitlab:acme/widgets'' ''failed'' None None)
           example_store) = project_progress example_store
   \<and> projects (run_calls example_env
        (update_wiki_progress example_task (PageTask 0) (PageProject 0) 70 ''m'') example_store)
      = [example_project\<lparr>p_progress := 70, p_message := Some ''m''\<rparr>]"
proof -
  have a: "\<not> writes_project_progress
      (UpdateWikiProjectStatus FailProject ''gitlab:acme/widgets'' ''failed'' None None)"
    by simp
  have l: "linked_project example_task = Some ''gitlab:acme/widgets''"
    by (simp add: linked_project_def example_defs)
  have ok: "db_ok example_env (PageProject 0)"
    by (simp add: example_env_def)
  have ps: "projects example_store = [example_project]"
      "p_project_key example_project = ''gitlab:acme/widgets''"
    by (simp_all add: example_defs)
  note inst = progress_mirror_on_project [where e = example_env and s = example_store
      and t = example_task and ?c1.0 = "PageTask 0" and ?c2.0 = "PageProject 0" and pct = 70
      and m = "''m''"
      and c' = "UpdateWikiProjectStatus FailProject ''gitlab:acme/widgets'' ''failed'' None None"]
  from inst have two: "projects (run_calls example_env
        (update_wiki_progress example_task (PageTask 0) (PageProject 0) 70 ''m'') example_store)
      = [example_project\<lparr>p_progress := 70, p_message := Some ''m''\<rparr>]"
    by (simp add: l ok ps)
  from inst a have three: "project_progress
        (run_call example_env
           (UpdateWikiProjectStatus FailProject ''gitlab:acme/widgets'' ''failed'' None None)
           example_store) = project_progress example_store"
    by blast
  show ?thesis
    using a two three by (intro conjI)
qed

text \<open>
  Claim C8. A task row starts with progress 0, and the restart sweep resets it to 0. In
  every run of the pipeline the progress
  values recorded on the task row lie between 0 and 100 and do not decrease until the write
  of a terminal status, which ends the sequence (100 on completion, 0 on failure). In a run
  that succeeds the values written are 0, 5, 20, 40, 70, 70, then 70 + floor(25 i / N) for
  the pages i = 0, ..., N - 1, then 95 and 100.
\<close>

theorem progress_bounded_and_nondecreasing:
  "nondecreasing_until_terminal (progress (new_task now tid req pk))
     (recorded_progress e (process_task_calls e t))
   \<and> progress (new_task now tid req pk) = 0
   \<and> progress (mark_interrupted now' t') = 0
   \<and> (download_repo e = Inr path \<and> read_all_documents e = Inr nd
        \<and> prepare_retriever e = None \<and> generate_wiki_structure e = Inr pgs \<longrightarrow>
      map snd (task_writes (process_task_calls e t))
        = map (Pair ''processing'')
            ([0, 5, 20, 40, 70, 70]
             @ map (\<lambda>i. 70 + (25 * int i) div int (length pgs)) [0..<length pgs] @ [95])
          @ [(''completed'', 100)])"
proof (intro conjI impI)
  show zero: "progress (new_task now tid req pk) = 0"
    by (simp add: new_task_def task_request.extend_def task.fields_def)
  show "progress (mark_interrupted now' t') = 0"
    by (simp add: mark_interrupted_def)
  show "nondecreasing_until_terminal (progress (new_task now tid req pk))
     (recorded_progress e (process_task_calls e t))"
    unfolding zero recorded_progress_def
    by (rule ndut_filter [OF ndut_process_task_calls])
  show "map snd (task_writes (process_task_calls e t))
        = map (Pair ''processing'')
            ([0, 5, 20, 40, 70, 70]
             @ map (\<lambda>i. 70 + (25 * int i) div int (length pgs)) [0..<length pgs] @ [95])
          @ [(''completed'', 100)]"
    if "download_repo e = Inr path \<and> read_all_documents e = Inr nd
        \<and> prepare_retriever e = None \<and> generate_wiki_structure e = Inr pgs"
    using that by (intro task_writes_success) simp_all
qed

theorem progress_bounded_and_nondecreasing_witness:
  "download_repo example_env = Inr ''/repos/acme/widgets'' \<and> read_all_documents example_env = Inr 4
   \<and> prepare_retriever example_env = None \<and> generate_wiki_structure example_env = Inr example_pages
   \<and> map snd (task_writes (process_task_calls example_env example_task))
       = [(''processing'', 0), (''processing'', 5), (''processing'', 20), (''processing'', 40),
          (''processing'', 70), (''processing'', 70), (''processing'', 70), (''processing'', 78),
          (''processing'', 86), (''processing'', 95), (''completed'', 100)]
   \<and> nondecreasing_until_terminal 0
        (recorded_progress example_env (process_task_calls example_env example_task))"
proof -
  have h: "download_repo example_env = Inr ''/repos/acme/widgets'' \<and>
      read_all_documents example_env = Inr 4 \<and> prepare_retriever example_env = None \<and>
      generate_wiki_structure example_env = Inr example_pages"
    by (simp add: example_env_def)
  note inst = progress_bounded_and_nondecreasing [where e = example_env and t = example_task
      and path = "''/repos/acme/widgets''" and nd = 4 and pgs = example_pages
      and now = 1 and tid = "''t1''" and req = example_request
      and pk = "Some ''gitlab:acme/widgets''"]
  have len: "length example_pages = 3"
    by (simp add: example_pages_def)
  have upt3: "[0..<3] = [0, 1, 2]"
    by (simp add: upt_rec)
  from inst h have "map snd (task_writes (process_task_calls example_env example_task))
        = map (Pair ''processing'')
            ([0, 5, 20, 40, 70, 70]
             @ map (\<lambda>i. 70 + (25 * int i) div int (length example_pages))
                 [0..<length example_pages] @ [95])
          @ [(''completed'', 100)]"
    by blast
  then have writes: "map snd (task_writes (process_task_calls example_env example_task))
       = [(''processing'', 0), (''processing'', 5), (''processing'', 20), (''processing'', 40),
          (''processing'', 70), (''processing'', 70), (''processing'', 70), (''processing'', 78),
          (''processing'', 86), (''processing'', 95), (''completed'', 100)]"
    by (simp add: len upt3)
  from inst have "nondecreasing_until_terminal (progress (new_task 1 ''t1'' example_request
        (Some ''gitlab:acme/widgets'')))
      (recorded_progress example_env (process_task_calls example_env example_task))"
    and "progress (new_task 1 ''t1'' example_request (Some ''gitlab:acme/widgets'')) = 0"
    by blast+
  then have nd: "nondecreasing_until_terminal 0
        (recorded_progress example_env (process_task_calls example_env example_task))"
    by simp
  show ?thesis
    using h writes nd by (intro conjI) simp_all
qed

end
